theory Spec2Isabelle
  imports Complex_Main "HOL-Library.Sublist" "HOL-Library.List_Lexorder" "HOL-Library.Char_ord"
    "HOL-Library.Product_Lexorder" "HOL-Library.Option_ord"
begin

text \<open>
  A shallow embedding of the transcription pipeline of docling-av-transcriber:
  the conversation model (\<^verbatim>\<open>types.py\<close>), audio extraction (\<^verbatim>\<open>media/audio.py\<close>),
  keyframe selection (\<^verbatim>\<open>media/video.py\<close>), the speech-to-text and vision clients
  (\<^verbatim>\<open>models/\<close>) and the orchestrating pipeline (\<^verbatim>\<open>pipelines/\<close>).

  Conventions. A Python \<^verbatim>\<open>str\<close> is a \<^typ>\<open>string\<close> (its UTF-8 bytes); a number
  (an \<^verbatim>\<open>int\<close> or a finite \<^verbatim>\<open>float\<close>) is the rational it denotes, so that comparison
  and \<^verbatim>\<open>int()\<close> are exact; \<^verbatim>\<open>None\<close> is \<^term>\<open>None\<close>; an exception is the \<open>Inl\<close> of a sum.
  What the operating system, the converter process and the network answer is an
  argument of the function that asks.
\<close>

section \<open>Python values and string helpers\<close>

text \<open>
  \<open>py_int\<close> is \<^verbatim>\<open>int(x)\<close>, which truncates towards zero; \<open>str_int\<close> is the decimal
  rendering of an integer; \<open>format_int0 w\<close> is the format \<^verbatim>\<open>:0w\<close> of an f-string, which pads
  with zeros to the width \<open>w\<close>, after the sign.
\<close>

definition py_int :: "rat \<Rightarrow> int" where
  "py_int x = (if x < 0 then \<lceil>x\<rceil> else \<lfloor>x\<rfloor>)"

definition digit_char :: "nat \<Rightarrow> char" where
  "digit_char n = ''0123456789'' ! n"

fun str_nat :: "nat \<Rightarrow> string" where
  "str_nat n = (if n < 10 then [digit_char n] else str_nat (n div 10) @ [digit_char (n mod 10)])"

declare str_nat.simps [simp del]

definition str_int :: "int \<Rightarrow> string" where
  "str_int i = (if i < 0 then CHR ''-'' # str_nat (nat (- i)) else str_nat (nat i))"

definition zfill :: "nat \<Rightarrow> string \<Rightarrow> string" where
  "zfill w s = replicate (w - length s) (CHR ''0'') @ s"

definition format_int0 :: "nat \<Rightarrow> int \<Rightarrow> string" where
  "format_int0 w n =
     (if n < 0 then CHR ''-'' # zfill (w - 1) (str_nat (nat (- n))) else zfill w (str_nat (nat n)))"

text \<open>
  \<^verbatim>\<open>str.strip\<close> and \<^verbatim>\<open>str.lstrip\<close> without argument remove white space: the characters
  for which \<^verbatim>\<open>str.isspace\<close> holds. They are the ASCII ones of \<open>is_space\<close> and the characters
  U+0085, U+00A0, U+1680, U+2000 to U+200A, U+2028, U+2029, U+202F, U+205F and U+3000,
  whose UTF-8 encodings are \<open>WIDE_SPACES\<close>. \<open>leading_space\<close> is the number of bytes of the
  white-space character a string starts with, zero when it starts with none, and
  \<open>drop_spaces\<close> removes white space from the front. For the right end the string and the
  encodings are reversed.
\<close>

definition is_space :: "char \<Rightarrow> bool" where
  "is_space c = (c \<in> set [CHR 0x09, CHR 0x0A, CHR 0x0B, CHR 0x0C, CHR 0x0D,
                           CHR 0x1C, CHR 0x1D, CHR 0x1E, CHR 0x1F, CHR 0x20])"

definition WIDE_SPACES :: "string list" where
  "WIDE_SPACES =
     [[CHR 0xC2, CHR 0x85], [CHR 0xC2, CHR 0xA0], [CHR 0xE1, CHR 0x9A, CHR 0x80]]
     @ map (\<lambda>b. [CHR 0xE2, CHR 0x80, b])
         [CHR 0x80, CHR 0x81, CHR 0x82, CHR 0x83, CHR 0x84, CHR 0x85, CHR 0x86, CHR 0x87,
          CHR 0x88, CHR 0x89, CHR 0x8A, CHR 0xA8, CHR 0xA9, CHR 0xAF]
     @ [[CHR 0xE2, CHR 0x81, CHR 0x9F], [CHR 0xE3, CHR 0x80, CHR 0x80]]"

definition leading_space :: "string list \<Rightarrow> string \<Rightarrow> nat" where
  "leading_space wide s =
     (case s of
        [] \<Rightarrow> 0
      | c # cs \<Rightarrow>
          if is_space c then 1
          else (case find (\<lambda>p. prefix p s) wide of Some p \<Rightarrow> length p | None \<Rightarrow> 0))"

function drop_spaces :: "string list \<Rightarrow> string \<Rightarrow> string" where
  "drop_spaces wide s =
     (if leading_space wide s = 0 then s else drop_spaces wide (drop (leading_space wide s) s))"
  by pat_completeness auto
termination
proof (relation "measure (\<lambda>(wide, s). length s)")
  show "wf (measure (\<lambda>(wide, s). length s))" by simp
next
  fix wide :: "string list" and s :: string
  assume "leading_space wide s \<noteq> 0"
  then have "s \<noteq> []" by (auto simp: leading_space_def)
  with \<open>leading_space wide s \<noteq> 0\<close>
  show "((wide, drop (leading_space wide s) s), (wide, s)) \<in> measure (\<lambda>(wide, s). length s)"
    by simp
qed

declare drop_spaces.simps [simp del]

definition lstrip :: "string \<Rightarrow> string" where
  "lstrip s = drop_spaces WIDE_SPACES s"

definition rstrip :: "string \<Rightarrow> string" where
  "rstrip s = rev (drop_spaces (map rev WIDE_SPACES) (rev s))"

definition strip :: "string \<Rightarrow> string" where
  "strip s = lstrip (rstrip s)"

text \<open>
  \<open>join sep\<close> is \<^verbatim>\<open>sep.join\<close>, and \<open>partition_nl\<close> is \<^verbatim>\<open>str.partition\<close> at the newline character: the part
  before the first newline, the newline, and the part after it, or the string and two
  empty strings when there is no newline.
\<close>

fun join :: "string \<Rightarrow> string list \<Rightarrow> string" where
  "join sep [] = []"
| "join sep [x] = x"
| "join sep (x # y # ys) = x @ sep @ join sep (y # ys)"

definition partition_nl :: "string \<Rightarrow> string \<times> string \<times> string" where
  "partition_nl s =
     (let h = takeWhile (\<lambda>c. c \<noteq> CHR 0x0A) s; r = dropWhile (\<lambda>c. c \<noteq> CHR 0x0A) s
      in case r of [] \<Rightarrow> (s, [], []) | c # rest \<Rightarrow> (h, [CHR 0x0A], rest))"

section \<open>The conversation model (\<^verbatim>\<open>types.py\<close>)\<close>

text \<open>
  \<open>format_ms\<close> is \<^verbatim>\<open>_format_ms\<close>. The field \<^verbatim>\<open>text\<close> of an item is \<open>item_text\<close> here, and the
  fields of a word carry the prefix \<open>word_\<close>. In \<open>to_string\<close>, \<open>time_tag_of\<close> is the
  variable \<^verbatim>\<open>time_tag\<close> and \<open>opt_chunk\<close> the test \<^verbatim>\<open>if time_tag:\<close> before it is appended.
\<close>

definition KEYFRAME_PREFIX :: string where
  "KEYFRAME_PREFIX = ''[[KEYFRAME_START]]''"

definition KEYFRAME_SUFFIX :: string where
  "KEYFRAME_SUFFIX = ''[[KEYFRAME_END]]''"

definition format_ms :: "rat option \<Rightarrow> string" where
  "format_ms ms =
     (case ms of
        None \<Rightarrow> ''--:--:--.---''
      | Some v \<Rightarrow>
          (let ms_int = py_int v;
               seconds = ms_int div 1000; millis = ms_int mod 1000;
               minutes = seconds div 60; seconds' = seconds mod 60;
               hours = minutes div 60; minutes' = minutes mod 60
           in format_int0 2 hours @ '':'' @ format_int0 2 minutes' @ '':'' @
              format_int0 2 seconds' @ ''.'' @ format_int0 3 millis))"

record ConversationWord =
  word_text :: string
  word_start_time :: "rat option"
  word_end_time :: "rat option"

record ConversationItem =
  item_text :: string
  start_time :: "rat option"
  end_time :: "rat option"
  speaker_id :: "int option"
  speaker :: "string option"
  words :: "ConversationWord list"

definition time_tag_of :: "ConversationItem \<Rightarrow> string option" where
  "time_tag_of it =
     (if start_time it \<noteq> None \<and> end_time it \<noteq> None
      then Some (''[time: '' @ format_ms (start_time it) @ ''-'' @ format_ms (end_time it) @ '']'')
      else None)"

definition opt_chunk :: "string option \<Rightarrow> string list" where
  "opt_chunk t = (case t of None \<Rightarrow> [] | Some s \<Rightarrow> (if s \<noteq> [] then [s] else []))"

definition to_string :: "ConversationItem \<Rightarrow> string" where
  "to_string it =
     (let time_tag = time_tag_of it in
      if prefix KEYFRAME_PREFIX (item_text it) then
        (case partition_nl (item_text it) of (header, sep, rest) \<Rightarrow>
           let header_body = lstrip (drop (length KEYFRAME_PREFIX) header);
               new_header_parts = [KEYFRAME_PREFIX] @ opt_chunk time_tag
                                  @ (if header_body \<noteq> [] then [header_body] else []);
               new_header = join '' '' new_header_parts
           in if sep \<noteq> [] then new_header @ [CHR 0x0A] @ rest else new_header)
      else
        join '' '' (opt_chunk time_tag
                    @ (case speaker it of None \<Rightarrow> [] | Some sp \<Rightarrow> [''[speaker:'' @ sp @ '']''])
                    @ [item_text it]))"

text \<open>
  The shape \<^verbatim>\<open>HH:MM:SS.mmm\<close> of the specification: twelve characters, digits
  separated by two colons and a dot.
\<close>

definition is_digit :: "char \<Rightarrow> bool" where
  "is_digit c = (c \<in> set ''0123456789'')"

definition HH_MM_SS_mmm :: "string \<Rightarrow> bool" where
  "HH_MM_SS_mmm s =
     (length s = 12 \<and> s ! 2 = CHR '':'' \<and> s ! 5 = CHR '':'' \<and> s ! 8 = CHR ''.'' \<and>
      list_all (\<lambda>i. is_digit (s ! i)) [0, 1, 3, 4, 6, 7, 9, 10, 11])"

section \<open>Exceptions\<close>

text \<open>
  The exception classes the modelled code raises or lets through. A message is kept
  where the code builds it from values of the model; the text of an underlying exception
  and the rendering of an arbitrary response value are left out of it.
\<close>

datatype error =
    TypeError
  | ValueError string
  | AttributeError
  | ZeroDivisionError
  | UnboundLocalError
  | FileNotFoundError string
  | RuntimeError string
  | NoAudioStreamError string
  | AsrServiceError string
  | VisionServiceError string

section \<open>Ordering of conversation items (\<^verbatim>\<open>@dataclass(order=True)\<close>)\<close>

text \<open>
  \<^verbatim>\<open>order=True\<close> generates \<^verbatim>\<open>__lt__\<close> as the comparison of the tuples of the fields in
  declaration order. Python compares two tuples at the first position where the elements
  are not equal; \<^verbatim>\<open><\<close> between \<^verbatim>\<open>None\<close> and a value raises \<^verbatim>\<open>TypeError\<close>. Lists compare
  alike, a proper prefix being smaller.
\<close>

definition opt_lt :: "'a::linorder option \<Rightarrow> 'a option \<Rightarrow> error + bool" where
  "opt_lt a b = (case (a, b) of (Some x, Some y) \<Rightarrow> Inr (x < y) | _ \<Rightarrow> Inl TypeError)"

definition word_lt :: "ConversationWord \<Rightarrow> ConversationWord \<Rightarrow> error + bool" where
  "word_lt a b =
     (if word_text a \<noteq> word_text b then Inr (word_text a < word_text b)
      else if word_start_time a \<noteq> word_start_time b
        then opt_lt (word_start_time a) (word_start_time b)
      else if word_end_time a \<noteq> word_end_time b
        then opt_lt (word_end_time a) (word_end_time b)
      else Inr False)"

fun words_lt :: "ConversationWord list \<Rightarrow> ConversationWord list \<Rightarrow> error + bool" where
  "words_lt [] [] = Inr False"
| "words_lt [] (y # ys) = Inr True"
| "words_lt (x # xs) [] = Inr False"
| "words_lt (x # xs) (y # ys) = (if x = y then words_lt xs ys else word_lt x y)"

definition item_lt :: "ConversationItem \<Rightarrow> ConversationItem \<Rightarrow> error + bool" where
  "item_lt a b =
     (if item_text a \<noteq> item_text b then Inr (item_text a < item_text b)
      else if start_time a \<noteq> start_time b then opt_lt (start_time a) (start_time b)
      else if end_time a \<noteq> end_time b then opt_lt (end_time a) (end_time b)
      else if speaker_id a \<noteq> speaker_id b then opt_lt (speaker_id a) (speaker_id b)
      else if speaker a \<noteq> speaker b then opt_lt (speaker a) (speaker b)
      else words_lt (words a) (words b))"

text \<open>
  The tuples that \<^verbatim>\<open>__lt__\<close> compares, as values of the library's lexicographic orders
  on products, lists and options.
\<close>

definition word_key :: "ConversationWord \<Rightarrow> string \<times> rat option \<times> rat option" where
  "word_key w = (word_text w, word_start_time w, word_end_time w)"

definition item_key ::
  "ConversationItem \<Rightarrow>
   string \<times> rat option \<times> rat option \<times> int option \<times> string option
     \<times> (string \<times> rat option \<times> rat option) list" where
  "item_key it =
     (item_text it, start_time it, end_time it, speaker_id it, speaker it,
      map word_key (words it))"

text \<open>
  Two values of an optional field can be compared without \<^verbatim>\<open>TypeError\<close> when both are
  set or both are unset.
\<close>

definition set_alike :: "'a option \<Rightarrow> 'a option \<Rightarrow> bool" where
  "set_alike a b = ((a = None) = (b = None))"

definition words_alike :: "ConversationWord \<Rightarrow> ConversationWord \<Rightarrow> bool" where
  "words_alike a b =
     (set_alike (word_start_time a) (word_start_time b) \<and>
      set_alike (word_end_time a) (word_end_time b))"

definition items_alike :: "ConversationItem \<Rightarrow> ConversationItem \<Rightarrow> bool" where
  "items_alike a b =
     (set_alike (start_time a) (start_time b) \<and> set_alike (end_time a) (end_time b) \<and>
      set_alike (speaker_id a) (speaker_id b) \<and> set_alike (speaker a) (speaker b) \<and>
      list_all (\<lambda>(x, y). words_alike x y) (zip (words a) (words b)))"

text \<open>
  \<^verbatim>\<open>sorted(conversation)\<close>: a stable sort that calls only \<^verbatim>\<open>__lt__\<close>. It is modelled as
  insertion from the right, each item placed before the first one that is not smaller
  than it; the library's sort gives the same list whenever no comparison raises.
\<close>

fun insort_item :: "ConversationItem \<Rightarrow> ConversationItem list \<Rightarrow> error + ConversationItem list" where
  "insort_item x [] = Inr [x]"
| "insort_item x (y # ys) =
     (case item_lt y x of
        Inl e \<Rightarrow> Inl e
      | Inr True \<Rightarrow> (case insort_item x ys of Inl e \<Rightarrow> Inl e | Inr r \<Rightarrow> Inr (y # r))
      | Inr False \<Rightarrow> Inr (x # y # ys))"

fun sorted_items :: "ConversationItem list \<Rightarrow> error + ConversationItem list" where
  "sorted_items [] = Inr []"
| "sorted_items (x # xs) =
     (case sorted_items xs of Inl e \<Rightarrow> Inl e | Inr r \<Rightarrow> insort_item x r)"

section \<open>Document assembly (\<^verbatim>\<open>pipelines/document_builder.py\<close>)\<close>

record DocumentOrigin =
  origin_filename :: string
  origin_mimetype :: string
  origin_binary_hash :: string

record DoclingDocument =
  doc_name :: string
  doc_origin :: DocumentOrigin
  doc_texts :: "string list"

definition build_docling_document ::
  "string \<Rightarrow> string \<Rightarrow> string \<Rightarrow> ConversationItem list \<Rightarrow> string option
   \<Rightarrow> error + DoclingDocument" where
  "build_docling_document filename mimetype binary_hash conversation summary =
     (let origin = \<lparr>origin_filename = filename, origin_mimetype = mimetype,
                     origin_binary_hash = binary_hash\<rparr>;
          summary_texts = (case summary of
                             None \<Rightarrow> []
                           | Some s \<Rightarrow> (if s \<noteq> [] then [''[summary] '' @ strip s] else []))
      in case sorted_items conversation of
           Inl e \<Rightarrow> Inl e
         | Inr ordered \<Rightarrow>
             Inr \<lparr>doc_name = filename, doc_origin = origin,
                  doc_texts = summary_texts @ map to_string ordered\<rparr>)"

section \<open>Keyframe selection (\<^verbatim>\<open>media/video.py\<close>)\<close>

text \<open>
  Python slices. \<^verbatim>\<open>xs[::step]\<close> for \<open>step \<ge> 1\<close> keeps the elements at the indices
  \<open>0, step, 2 * step, \<dots>\<close>; \<^verbatim>\<open>xs[:m]\<close> keeps the first \<open>m\<close> elements when \<open>m \<ge> 0\<close> and drops
  the last \<open>- m\<close> elements when \<open>m < 0\<close>.
\<close>

fun py_stride :: "nat \<Rightarrow> 'a list \<Rightarrow> 'a list" where
  "py_stride step [] = []"
| "py_stride step (x # xs) = x # py_stride step (drop (step - 1) xs)"

definition py_upto :: "int \<Rightarrow> 'a list \<Rightarrow> 'a list" where
  "py_upto m xs = (if 0 \<le> m then take (nat m) xs else take (length xs - nat (- m)) xs)"

text \<open>
  The last step of \<^verbatim>\<open>extract_keyframes_with_timestamps\<close> (the lines after the pairing):
  when there are more pairs than \<open>max_frames\<close>, keep every \<open>step\<close>-th pair and cut the
  result at \<open>max_frames\<close>. The integer division raises on a zero divisor.
\<close>

definition downsample :: "('f \<times> 't) list \<Rightarrow> int \<Rightarrow> error + ('f \<times> 't) list" where
  "downsample pairs max_frames =
     (if int (length pairs) > max_frames then
        (if max_frames = 0 then Inl ZeroDivisionError
         else let step = max 1 (int (length pairs) div max_frames)
              in Inr (py_upto max_frames (py_stride (nat step) pairs)))
      else Inr pairs)"

text \<open>
  The function itself. The two passes of the external frame extractor are arguments:
  each is what \<^verbatim>\<open>_run_ffmpeg_extract\<close> does for one filter (a \<^verbatim>\<open>RuntimeError\<close> on a
  non-zero exit), together with the frame files found afterwards and the timestamps
  parsed from its diagnostic stream. The uniform pass runs when the scene pass raises
  \<^verbatim>\<open>RuntimeError\<close>, and again when no frame is found.
\<close>

definition extract_keyframes_with_timestamps ::
  "string \<Rightarrow> bool \<Rightarrow> (error + 'f list \<times> 't list) \<Rightarrow> (error + 'f list \<times> 't list) \<Rightarrow> int
   \<Rightarrow> error + ('f \<times> 't) list" where
  "extract_keyframes_with_timestamps source source_exists scene_pass uniform_pass max_frames =
     (if \<not> source_exists then Inl (FileNotFoundError source)
      else
        case (case scene_pass of Inl (RuntimeError m) \<Rightarrow> uniform_pass | r \<Rightarrow> r) of
          Inl e \<Rightarrow> Inl e
        | Inr (frames0, timestamps0) \<Rightarrow>
            (case (if frames0 = [] then uniform_pass else Inr (frames0, timestamps0)) of
               Inl e \<Rightarrow> Inl e
             | Inr (frames, timestamps) \<Rightarrow>
                 if frames = [] then Inr []
                 else
                   let pairs = zip frames timestamps;
                       pairs = (if length frames \<noteq> length timestamps
                                then (let n = min (length frames) (length timestamps)
                                      in zip (take n frames) (take n timestamps))
                                else pairs)
                   in downsample pairs max_frames))"

section \<open>Strings and paths\<close>

text \<open>
  \<open>lower\<close> is \<^verbatim>\<open>str.lower\<close> as far as ASCII text can tell: it folds the ASCII capitals and
  the two other characters whose lower case has an ASCII letter, U+212A (the Kelvin
  sign, to \<open>k\<close>) and U+0130 (to \<open>i\<close> followed by U+0307). Every other character is kept:
  its lower case is not ASCII either, so that the comparisons of a lowered string with an
  ASCII constant (\<open>=\<close>, \<^verbatim>\<open>endswith\<close>, \<^verbatim>\<open>in\<close>) come out as in the code.

  A path is the string \<^verbatim>\<open>str(Path(p))\<close>; \<open>Path_name\<close> is its last component (empty for the
  path \<^verbatim>\<open>.\<close>, which has no component) and \<open>Path_suffix\<close> the part of the name from its last
  dot, empty when the name has no dot, starts with its only dot, or ends with a dot
  (\<^verbatim>\<open>PurePath.suffix\<close>).
\<close>

definition lower_char :: "char \<Rightarrow> char" where
  "lower_char c =
     (case map_of (zip ''ABCDEFGHIJKLMNOPQRSTUVWXYZ'' ''abcdefghijklmnopqrstuvwxyz'') c of
        Some d \<Rightarrow> d
      | None \<Rightarrow> c)"

function lower :: "string \<Rightarrow> string" where
  "lower [] = []"
| "lower (c # cs) =
     (if prefix [CHR 0xE2, CHR 0x84, CHR 0xAA] (c # cs) then CHR ''k'' # lower (drop 2 cs)
      else if prefix [CHR 0xC4, CHR 0xB0] (c # cs)
        then [CHR ''i'', CHR 0xCC, CHR 0x87] @ lower (drop 1 cs)
      else lower_char c # lower cs)"
  by pat_completeness auto
termination
  by (relation "measure length") auto

declare lower.simps [simp del]

definition Path_name :: "string \<Rightarrow> string" where
  "Path_name p = (if p = ''.'' then [] else rev (takeWhile (\<lambda>c. c \<noteq> CHR ''/'') (rev p)))"

definition Path_suffix :: "string \<Rightarrow> string" where
  "Path_suffix p =
     (let name = Path_name p;
          ext = rev (takeWhile (\<lambda>c. c \<noteq> CHR ''.'') (rev name))
      in if CHR ''.'' \<in> set name \<and> ext \<noteq> [] \<and> length ext + 1 < length name
         then CHR ''.'' # ext else [])"

definition endswith_any :: "string \<Rightarrow> string list \<Rightarrow> bool" where
  "endswith_any s ends = list_ex (\<lambda>e. suffix e s) ends"

section \<open>Audio extraction (\<^verbatim>\<open>media/audio.py\<close>)\<close>

text \<open>
  The world the code acts on: the files that exist, with their bytes, the external
  commands run so far, in order, and the notices logged (of the logging calls only the
  one that announces the visual fallback is modelled). What the operating system and the
  converter answer is collected in \<open>os\<close>: the name
  \<^verbatim>\<open>tempfile.mkstemp(suffix = s)\<close> creates, the name
  \<^verbatim>\<open>NamedTemporaryFile(suffix = s)\<close> creates, for a command run on the files present
  the exit status and diagnostic stream of the process and the files it leaves, and, for
  a video and a filter, one pass of the frame extractor (see below). The converter is
  taken to be installed: running it returns a process.
\<close>

type_synonym bytes = string

type_synonym files = "string \<rightharpoonup> bytes"

record process =
  returncode :: int
  stderr :: string

record world =
  files :: files
  commands :: "string list list"
  notices :: "string list"

record os =
  mkstemp :: "string \<Rightarrow> string"
  named_temporary_file :: "string \<Rightarrow> string"
  subprocess_run :: "string list \<Rightarrow> files \<Rightarrow> process \<times> files"
  run_ffmpeg_extract :: "string \<Rightarrow> string \<Rightarrow> error + string list \<times> rat list"

definition unlink_missing_ok :: "string \<Rightarrow> world \<Rightarrow> world" where
  "unlink_missing_ok p w = w\<lparr>files := (files w)(p := None)\<rparr>"

definition NO_AUDIO_ERROR_MARKERS :: "string list" where
  "NO_AUDIO_ERROR_MARKERS =
     [''Output file does not contain any stream'',
      ''Stream specifier '' @ [CHR 0x27] @ '':a'' @ [CHR 0x27],
      ''matches no streams'']"

definition ffmpeg_command :: "string \<Rightarrow> string \<Rightarrow> string list" where
  "ffmpeg_command source tmp =
     [''ffmpeg'', ''-i'', source, ''-ac'', ''1'', ''-ar'', ''16000'', tmp, ''-y'']"

definition no_audio_marker :: "string \<Rightarrow> bool" where
  "no_audio_marker stderr_lower =
     list_ex (\<lambda>marker. sublist (lower marker) stderr_lower) NO_AUDIO_ERROR_MARKERS"

definition ensure_wav_audio :: "os \<Rightarrow> string \<Rightarrow> world \<Rightarrow> (error + string) \<times> world" where
  "ensure_wav_audio sys source w =
     (if lower (Path_suffix source) = ''.wav'' then (Inr source, w)
      else
        let tmp = mkstemp sys ''.wav'';
            w1 = w\<lparr>files := (files w)(tmp \<mapsto> [])\<rparr>;
            cmd = ffmpeg_command source tmp;
            (proc, fs) = subprocess_run sys cmd (files w1);
            w2 = w1\<lparr>files := fs, commands := commands w1 @ [cmd]\<rparr>
        in if returncode proc \<noteq> 0 then
             (let w3 = unlink_missing_ok tmp w2;
                  stderr_lower = lower (stderr proc)
              in if no_audio_marker stderr_lower
                 then (Inl (NoAudioStreamError (''No audio stream found in file: '' @ source)), w3)
                 else (Inl (RuntimeError (''ffmpeg conversion failed: '' @ stderr proc)), w3))
           else (Inr tmp, w2))"

section \<open>Provider responses (JSON values)\<close>

text \<open>
  A decoded response body. An object is the list of its members, the keys distinct, as
  the items of the \<^verbatim>\<open>dict\<close> that \<^verbatim>\<open>response.json()\<close> returns. \<open>truthy\<close> is Python's truth
  value, \<open>py_or\<close> the operator \<^verbatim>\<open>or\<close>, \<open>dget\<close> is \<^verbatim>\<open>dict.get\<close> without a default, and
  \<open>iterate\<close> what a \<^verbatim>\<open>for\<close> loop runs over.
\<close>

datatype json =
    JNull
  | JBool bool
  | JNum rat
  | JStr string
  | JArr "json list"
  | JObj "(string \<times> json) list"

fun truthy :: "json \<Rightarrow> bool" where
  "truthy JNull = False"
| "truthy (JBool b) = b"
| "truthy (JNum n) = (n \<noteq> 0)"
| "truthy (JStr s) = (s \<noteq> [])"
| "truthy (JArr xs) = (xs \<noteq> [])"
| "truthy (JObj kvs) = (kvs \<noteq> [])"

definition py_or :: "json \<Rightarrow> json \<Rightarrow> json" where
  "py_or a b = (if truthy a then a else b)"

definition dget :: "(string \<times> json) list \<Rightarrow> string \<Rightarrow> json" where
  "dget kvs k = (case map_of kvs k of None \<Rightarrow> JNull | Some v \<Rightarrow> v)"

definition dget_default :: "(string \<times> json) list \<Rightarrow> string \<Rightarrow> json \<Rightarrow> json" where
  "dget_default kvs k d = (case map_of kvs k of None \<Rightarrow> d | Some v \<Rightarrow> v)"

fun iterate :: "json \<Rightarrow> error + json list" where
  "iterate (JArr xs) = Inr xs"
| "iterate (JObj kvs) = Inr (map (\<lambda>kv. JStr (fst kv)) kvs)"
| "iterate (JStr s) = Inr (map (\<lambda>c. JStr [c]) s)"
| "iterate JNull = Inl TypeError"
| "iterate (JBool b) = Inl TypeError"
| "iterate (JNum n) = Inl TypeError"

definition bind :: "error + 'a \<Rightarrow> ('a \<Rightarrow> error + 'b) \<Rightarrow> error + 'b" where
  "bind r f = (case r of Inl e \<Rightarrow> Inl e | Inr v \<Rightarrow> f v)"

fun map_until_error :: "('a \<Rightarrow> error + 'b) \<Rightarrow> 'a list \<Rightarrow> error + 'b list" where
  "map_until_error f [] = Inr []"
| "map_until_error f (x # xs) =
     (case f x of
        Inl e \<Rightarrow> Inl e
      | Inr y \<Rightarrow> (case map_until_error f xs of Inl e \<Rightarrow> Inl e | Inr ys \<Rightarrow> Inr (y # ys)))"

section \<open>Speech-to-text client (\<^verbatim>\<open>models/aliyun_bailian.py\<close>)\<close>

text \<open>
  \<^verbatim>\<open>_parse_items\<close> stores in the fields of an item and of a word whatever values the
  response carries, of any type; only the text of an item is always a string, being the
  result of \<^verbatim>\<open>strip\<close>. \<open>ItemValues\<close> and \<open>WordValues\<close> are such instances: every field
  but the item text holds a JSON value, \<open>JNull\<close> for \<^verbatim>\<open>None\<close>.
\<close>

record WordValues =
  value_word_text :: json
  value_word_start_time :: json
  value_word_end_time :: json

record ItemValues =
  value_text :: string
  value_start_time :: json
  value_end_time :: json
  value_speaker_id :: json
  value_speaker :: json
  value_words :: "WordValues list"

definition parse_word :: "json \<Rightarrow> error + WordValues" where
  "parse_word word =
     (case word of
        JObj w \<Rightarrow>
          Inr \<lparr>value_word_text = py_or (py_or (dget w ''text'') (dget w ''word'')) (JStr []),
               value_word_start_time = py_or (dget w ''start'') (dget w ''start_time''),
               value_word_end_time = py_or (dget w ''end'') (dget w ''end_time'')\<rparr>
      | _ \<Rightarrow> Inl AttributeError)"

definition parse_segment :: "json \<Rightarrow> error + ItemValues" where
  "parse_segment segment =
     (case segment of
        JObj g \<Rightarrow>
          bind (iterate (dget_default g ''words'' (JArr []))) (\<lambda>ws.
          bind (map_until_error parse_word ws) (\<lambda>parsed_words.
          bind (case py_or (py_or (dget g ''text'') (dget g ''sentence'')) (JStr []) of
                  JStr s \<Rightarrow> Inr (strip s)
                | _ \<Rightarrow> Inl AttributeError) (\<lambda>t.
          Inr \<lparr>value_text = t,
               value_start_time = py_or (dget g ''start'') (dget g ''begin_time''),
               value_end_time = py_or (dget g ''end'') (dget g ''end_time''),
               value_speaker_id = py_or (dget g ''speaker_id'') (dget g ''speaker''),
               value_speaker = dget g ''speaker_label'',
               value_words = parsed_words\<rparr>)))
      | _ \<Rightarrow> Inl AttributeError)"

definition parse_items :: "json \<Rightarrow> error + ItemValues list" where
  "parse_items result =
     (case result of
        JObj r \<Rightarrow>
          bind (iterate (py_or (py_or (dget r ''segments'') (dget r ''sentences'')) (JArr [])))
            (map_until_error parse_segment)
      | _ \<Rightarrow> Inl AttributeError)"

text \<open>
  The instance as a \<open>ConversationItem\<close> of the types its fields are annotated with, when
  every value has the annotated type: a number or \<^verbatim>\<open>None\<close> for a time, an integer or
  \<^verbatim>\<open>None\<close> for the speaker id, a string or \<^verbatim>\<open>None\<close> for the speaker, a string for the
  text of a word.
\<close>

fun as_number :: "json \<Rightarrow> rat option option" where
  "as_number JNull = Some None"
| "as_number (JNum n) = Some (Some n)"
| "as_number v = None"

fun as_integer :: "json \<Rightarrow> int option option" where
  "as_integer JNull = Some None"
| "as_integer (JNum n) = (if of_int \<lfloor>n\<rfloor> = n then Some (Some \<lfloor>n\<rfloor>) else None)"
| "as_integer v = None"

fun as_string_option :: "json \<Rightarrow> string option option" where
  "as_string_option JNull = Some None"
| "as_string_option (JStr s) = Some (Some s)"
| "as_string_option v = None"

fun as_string :: "json \<Rightarrow> string option" where
  "as_string (JStr s) = Some s"
| "as_string v = None"

fun those_all :: "'a option list \<Rightarrow> 'a list option" where
  "those_all [] = Some []"
| "those_all (x # xs) =
     (case x of None \<Rightarrow> None
      | Some y \<Rightarrow> (case those_all xs of None \<Rightarrow> None | Some ys \<Rightarrow> Some (y # ys)))"

definition typed_word :: "WordValues \<Rightarrow> ConversationWord option" where
  "typed_word v =
     (case (as_string (value_word_text v), as_number (value_word_start_time v),
            as_number (value_word_end_time v)) of
        (Some t, Some s, Some e) \<Rightarrow>
          Some \<lparr>word_text = t, word_start_time = s, word_end_time = e\<rparr>
      | _ \<Rightarrow> None)"

definition typed_item :: "ItemValues \<Rightarrow> ConversationItem option" where
  "typed_item v =
     (case (as_number (value_start_time v), as_number (value_end_time v),
            as_integer (value_speaker_id v), as_string_option (value_speaker v),
            those_all (map typed_word (value_words v))) of
        (Some s, Some e, Some sid, Some sp, Some ws) \<Rightarrow>
          Some \<lparr>item_text = value_text v, start_time = s, end_time = e, speaker_id = sid,
                speaker = sp, words = ws\<rparr>
      | _ \<Rightarrow> None)"

text \<open>
  The network. A request either is answered, with a status, a body and the decoding of
  the body (\<open>None\<close> when \<^verbatim>\<open>response.json()\<close> raises \<^verbatim>\<open>JSONDecodeError\<close>), or raises
  \<^verbatim>\<open>RequestException\<close>. \<open>net\<close> counts the requests sent and records the delays slept.
\<close>

record response =
  status_code :: int
  response_text :: string
  response_json :: "json option"

datatype http_result = Responded response | RequestException string

record net =
  requests :: nat
  slept :: "int list"

definition sleep :: "int \<Rightarrow> net \<Rightarrow> net" where
  "sleep seconds n = n\<lparr>slept := slept n @ [seconds]\<rparr>"

text \<open>
  The attempt loop of \<^verbatim>\<open>_transcribe_direct\<close>, over the attempts still to make. The third
  argument is the variable \<^verbatim>\<open>response\<close>, unbound (\<open>None\<close>) until a request is answered.
  The result is the variable after the loop, or the error the loop raised.
\<close>

fun direct_attempts ::
  "(int \<Rightarrow> http_result) \<Rightarrow> int \<Rightarrow> int list \<Rightarrow> response option \<Rightarrow> net
   \<Rightarrow> (error + response option) \<times> net" where
  "direct_attempts post retries [] resp n = (Inr resp, n)"
| "direct_attempts post retries (attempt # rest) resp n =
     (let n1 = n\<lparr>requests := requests n + 1\<rparr> in
      case post attempt of
        Responded r \<Rightarrow>
          if status_code r \<ge> 500 \<and> attempt < retries
          then direct_attempts post retries rest (Some r) (sleep (2 ^ nat attempt) n1)
          else (Inr (Some r), n1)
      | RequestException msg \<Rightarrow>
          if attempt < retries
          then direct_attempts post retries rest resp (sleep (2 ^ nat attempt) n1)
          else (Inl (AsrServiceError (''Network error during transcription: '' @ msg)), n1))"

definition hashable :: "json \<Rightarrow> bool" where
  "hashable v = (case v of JArr xs \<Rightarrow> False | JObj kvs \<Rightarrow> False | _ \<Rightarrow> True)"

definition transcribe_direct ::
  "(int \<Rightarrow> http_result) \<Rightarrow> int \<Rightarrow> net \<Rightarrow> (error + ItemValues list) \<times> net" where
  "transcribe_direct post retries n =
     (case direct_attempts post retries [1..retries] None n of
        (Inl e, n') \<Rightarrow> (Inl e, n')
      | (Inr None, n') \<Rightarrow> (Inl UnboundLocalError, n')
      | (Inr (Some r), n') \<Rightarrow>
          if status_code r \<noteq> 200
          then (Inl (AsrServiceError (''Aliyun Bailian request failed with status ''
                       @ str_int (status_code r) @ '': '' @ response_text r)), n')
          else
            (case response_json r of
               None \<Rightarrow> (Inl (AsrServiceError ''Failed to decode JSON response''), n')
             | Some (JObj content) \<Rightarrow>
                 (let code = dget content ''code'' in
                  if \<not> hashable code then (Inl TypeError, n')
                  else if code \<notin> {JNull, JStr ''Success''}
                  then (Inl (AsrServiceError ''Aliyun Bailian returned error code''), n')
                  else
                    (let asr_result = py_or (py_or (dget content ''data'')
                                                   (dget content ''output'')) (JObj [])
                     in (parse_items asr_result, n')))
             | Some _ \<Rightarrow> (Inl AttributeError, n')))"

section \<open>Vision client (\<^verbatim>\<open>models/aliyun_vision.py\<close>)\<close>

text \<open>
  \<^verbatim>\<open>_post_with_retry\<close>, over the attempts still to make; running out of attempts raises
  \<^verbatim>\<open>VisionServiceError\<close>. The delays between attempts are left out of this model.
\<close>

fun post_attempts :: "(int \<Rightarrow> http_result) \<Rightarrow> int \<Rightarrow> int list \<Rightarrow> error + json" where
  "post_attempts post retries [] = Inl (VisionServiceError ''Aliyun vision request exhausted retries'')"
| "post_attempts post retries (attempt # rest) =
     (case post attempt of
        RequestException msg \<Rightarrow>
          if attempt \<ge> retries
          then Inl (VisionServiceError (''Network error during vision request: '' @ msg))
          else post_attempts post retries rest
      | Responded r \<Rightarrow>
          if status_code r \<noteq> 200 then
            (if status_code r \<ge> 500 \<and> attempt < retries
             then post_attempts post retries rest
             else Inl (VisionServiceError (''Aliyun vision request failed with status ''
                         @ str_int (status_code r) @ '': '' @ response_text r)))
          else
            (case response_json r of
               Some v \<Rightarrow> Inr v
             | None \<Rightarrow> Inl (VisionServiceError ''Failed to decode vision response JSON'')))"

definition post_with_retry :: "(int \<Rightarrow> http_result) \<Rightarrow> int \<Rightarrow> error + json" where
  "post_with_retry post retries = post_attempts post retries [1..retries]"

text \<open>
  \<^verbatim>\<open>_extract_text\<close>: the first non-blank text on the ladder of response shapes.
\<close>

definition nonblank :: "json \<Rightarrow> string option" where
  "nonblank v = (case v of JStr s \<Rightarrow> (if strip s \<noteq> [] then Some s else None) | _ \<Rightarrow> None)"

fun first_some :: "('a \<Rightarrow> 'b option) \<Rightarrow> 'a list \<Rightarrow> 'b option" where
  "first_some f [] = None"
| "first_some f (x # xs) = (case f x of Some y \<Rightarrow> Some y | None \<Rightarrow> first_some f xs)"

definition or_else :: "'a option \<Rightarrow> 'a option \<Rightarrow> 'a option" where
  "or_else a b = (case a of Some x \<Rightarrow> Some x | None \<Rightarrow> b)"

definition block_text :: "json \<Rightarrow> string option" where
  "block_text block = (case block of JObj b \<Rightarrow> nonblank (dget b ''text'') | _ \<Rightarrow> None)"

definition message_text :: "json \<Rightarrow> string option" where
  "message_text message =
     (case message of
        JObj m \<Rightarrow>
          or_else (case dget m ''content'' of
                     JArr content_blocks \<Rightarrow> first_some block_text content_blocks
                   | _ \<Rightarrow> None)
                  (nonblank (dget m ''text''))
      | _ \<Rightarrow> None)"

definition choice_text :: "json \<Rightarrow> string option" where
  "choice_text choice =
     (case choice of
        JObj c \<Rightarrow> or_else (message_text (dget c ''message'')) (nonblank (dget c ''text''))
      | _ \<Rightarrow> None)"

definition extract_text :: "json \<Rightarrow> error + string" where
  "extract_text payload =
     (case payload of
        JObj p \<Rightarrow>
          (let output = dget p ''output'';
               from_output =
                 (case output of
                    JObj out \<Rightarrow>
                      or_else (case dget out ''choices'' of
                                 JArr choices \<Rightarrow> first_some choice_text choices
                               | _ \<Rightarrow> None)
                              (nonblank (dget out ''text''))
                  | _ \<Rightarrow> None)
           in case or_else from_output
                     (or_else (nonblank output) (nonblank (dget p ''output_text''))) of
                Some t \<Rightarrow> Inr t
              | None \<Rightarrow> Inr [])
      | _ \<Rightarrow> Inl AttributeError)"

text \<open>
  \<^verbatim>\<open>_describe_single_frame\<close>. Building the payload opens the frame file; the requests for
  the frame are answered by \<open>post\<close>.
\<close>

definition describe_single_frame ::
  "files \<Rightarrow> (int \<Rightarrow> http_result) \<Rightarrow> int \<Rightarrow> string \<Rightarrow> error + string" where
  "describe_single_frame fs post retries frame_path =
     (case fs frame_path of
        None \<Rightarrow> Inl (FileNotFoundError frame_path)
      | Some image_bytes \<Rightarrow>
          bind (post_with_retry post retries) (\<lambda>response_data.
          bind (extract_text response_data) (\<lambda>t.
          if strip t = [] then Inl (VisionServiceError
                                     ''Aliyun vision response did not include text output'')
          else Inr (strip t))))"

text \<open>
  The two floating-point operations on a frame's timestamp, the product
  \<^verbatim>\<open>timestamp_sec * 1000\<close> and the rendering \<^verbatim>\<open>f"{timestamp_sec:.3f}"\<close>, are arguments.
\<close>

record float_ops =
  times_1000 :: "rat \<Rightarrow> rat"
  format_3f :: "rat \<Rightarrow> string"

definition wrap_keyframe_text :: "float_ops \<Rightarrow> string \<Rightarrow> rat \<Rightarrow> int \<Rightarrow> string" where
  "wrap_keyframe_text fl description timestamp_sec index =
     (let meta = ''frame='' @ str_int index @ '';time='' @ format_3f fl timestamp_sec @ ''s''
      in KEYFRAME_PREFIX @ meta @ [CHR 0x0A] @ description @ [CHR 0x0A] @ KEYFRAME_SUFFIX)"

definition keyframe_item :: "float_ops \<Rightarrow> string \<Rightarrow> rat \<Rightarrow> int \<Rightarrow> ConversationItem" where
  "keyframe_item fl description timestamp_sec idx =
     (let start_ms = py_int (times_1000 fl timestamp_sec)
      in \<lparr>item_text = wrap_keyframe_text fl description timestamp_sec idx,
          start_time = Some (of_int start_ms), end_time = Some (of_int (start_ms + 1)),
          speaker_id = None, speaker = None, words = []\<rparr>)"

text \<open>
  \<^verbatim>\<open>describe_frames\<close>: the loop over \<^verbatim>\<open>enumerate(frames, start=1)\<close>, the second argument
  being the index of the next frame. Only \<^verbatim>\<open>VisionServiceError\<close> is caught.
\<close>

fun describe_frames_from ::
  "float_ops \<Rightarrow> (int \<Rightarrow> string \<Rightarrow> error + string) \<Rightarrow> int \<Rightarrow> (string \<times> rat) list
   \<Rightarrow> error + ConversationItem list" where
  "describe_frames_from fl describe idx [] = Inr []"
| "describe_frames_from fl describe idx ((frame_path, timestamp_sec) # rest) =
     (case describe idx frame_path of
        Inl (VisionServiceError msg) \<Rightarrow> describe_frames_from fl describe (idx + 1) rest
      | Inl e \<Rightarrow> Inl e
      | Inr description \<Rightarrow>
          (case describe_frames_from fl describe (idx + 1) rest of
             Inl e \<Rightarrow> Inl e
           | Inr items \<Rightarrow> Inr (keyframe_item fl description timestamp_sec idx # items)))"

definition describe_frames ::
  "float_ops \<Rightarrow> files \<Rightarrow> (int \<Rightarrow> int \<Rightarrow> http_result) \<Rightarrow> int \<Rightarrow> (string \<times> rat) list
   \<Rightarrow> error + ConversationItem list" where
  "describe_frames fl fs post retries frames =
     describe_frames_from fl (\<lambda>idx frame_path. describe_single_frame fs (post idx) retries frame_path)
       1 frames"

text \<open>
  The constructor of the client raises when no API key is configured.
\<close>

definition MISSING_KEY :: string where
  "MISSING_KEY = ''Aliyun vision API key is missing. Set ''
     @ ''ALIYUN_BAILIAN_API_KEY/DASHSCOPE_API_KEY or pass settings.''"

definition AliyunVisionClient :: "string option \<Rightarrow> error + string" where
  "AliyunVisionClient api_key =
     (case api_key of
        None \<Rightarrow> Inl (VisionServiceError MISSING_KEY)
      | Some k \<Rightarrow> (if k = [] then Inl (VisionServiceError MISSING_KEY) else Inr k))"

section \<open>Input validation (\<^verbatim>\<open>media/backend.py\<close>)\<close>

datatype path_or_stream = Path string | BytesIO bytes

record BackendResult =
  path_or_stream :: path_or_stream
  filename :: string

text \<open>
  The argument of the pipeline: a path (a \<^verbatim>\<open>str\<close> or a \<^verbatim>\<open>Path\<close>), a byte buffer, or a
  value of another type.
\<close>

datatype pipeline_input = InPath string | InBytesIO bytes | InOther

definition validate_input :: "files \<Rightarrow> pipeline_input \<Rightarrow> string option \<Rightarrow> error + BackendResult" where
  "validate_input fs inp fname =
     (case inp of
        InPath p \<Rightarrow>
          if fs p = None then Inl (FileNotFoundError p)
          else Inr \<lparr>path_or_stream = Path p, filename = Path_name p\<rparr>
      | InBytesIO buf \<Rightarrow>
          (case fname of
             None \<Rightarrow> Inl (ValueError ''filename is required when using BytesIO'')
           | Some f \<Rightarrow>
               if f = [] then Inl (ValueError ''filename is required when using BytesIO'')
               else if length buf = 0 then Inl (ValueError ''empty BytesIO provided'')
               else Inr \<lparr>path_or_stream = BytesIO buf, filename = f\<rparr>)
      | InOther \<Rightarrow> Inl TypeError)"

section \<open>The pipeline (\<^verbatim>\<open>pipelines/asr_pipeline.py\<close>)\<close>

definition VIDEO_EXTENSIONS :: "string list" where
  "VIDEO_EXTENSIONS = [''.mp4'', ''.mov'', ''.avi'', ''.mkv'', ''.webm'']"

text \<open>
  The providers are interfaces; a pipeline holds any implementation of them. The vision
  provider is optional.
\<close>

record SpeechToTextProvider =
  transcribe_path :: "string \<Rightarrow> string \<Rightarrow> error + ConversationItem list"
  transcribe_bytes :: "bytes \<Rightarrow> string \<Rightarrow> string \<Rightarrow> error + ConversationItem list"

type_synonym ImageCaptionProvider = "(string \<times> rat) list \<Rightarrow> error + ConversationItem list"

record AsrPipelineLite =
  provider :: SpeechToTextProvider
  vision_provider :: "ImageCaptionProvider option"

record TranscriptionResult =
  document :: DoclingDocument
  audio_path :: "string option"

text \<open>
  \<^verbatim>\<open>_init_default_vision_provider\<close>: whatever the constructor of the default client
  raises, the pipeline is left without a vision provider.
\<close>

definition init_default_vision_provider :: "(error + 'p) \<Rightarrow> 'p option" where
  "init_default_vision_provider constructed =
     (case constructed of Inr client \<Rightarrow> Some client | Inl e \<Rightarrow> None)"

text \<open>
  \<^verbatim>\<open>_compute_binary_hash\<close>. A hash object is the bytes it was fed so far, \<^verbatim>\<open>update\<close>
  appends and the digest is \<open>sha256\<close> of them, an argument. A file is read in chunks
  until a read returns no byte. A file that cannot be opened raises, and the hash of the
  file name is returned instead.
\<close>

function read_chunks :: "nat \<Rightarrow> bytes \<Rightarrow> bytes \<Rightarrow> bytes" where
  "read_chunks chunk_size unread hasher =
     (let chunk = take chunk_size unread
      in if chunk = [] then hasher
         else read_chunks chunk_size (drop chunk_size unread) (hasher @ chunk))"
  by pat_completeness auto
termination
  by (relation "measure (\<lambda>(chunk_size, unread, hasher). length unread)") auto

declare read_chunks.simps [simp del]

definition compute_binary_hash :: "(bytes \<Rightarrow> string) \<Rightarrow> files \<Rightarrow> BackendResult \<Rightarrow> string" where
  "compute_binary_hash sha256 fs backend_result =
     (case path_or_stream backend_result of
        Path p \<Rightarrow>
          (case fs p of
             Some content \<Rightarrow> sha256 (read_chunks (1024 * 1024) content [])
           | None \<Rightarrow> sha256 (filename backend_result))
      | BytesIO buffer \<Rightarrow> sha256 ([] @ buffer))"

definition should_use_visual_fallback ::
  "AsrPipelineLite \<Rightarrow> bool \<Rightarrow> ConversationItem list \<Rightarrow> bool" where
  "should_use_visual_fallback self is_video conversation =
     (is_video \<and> conversation = [] \<and> vision_provider self \<noteq> None)"

definition is_video_file :: "string \<Rightarrow> bool" where
  "is_video_file fname = (if fname = [] then False else endswith_any (lower fname) VIDEO_EXTENSIONS)"

definition write_temp_file :: "os \<Rightarrow> bytes \<Rightarrow> string \<Rightarrow> world \<Rightarrow> string \<times> world" where
  "write_temp_file sys data fname w =
     (let sfx = (if Path_suffix fname \<noteq> [] then Path_suffix fname else ''.bin'');
          temp_path = named_temporary_file sys sfx
      in (temp_path, w\<lparr>files := (files w)(temp_path \<mapsto> data)\<rparr>))"

definition prepare_wav_artifact ::
  "os \<Rightarrow> BackendResult \<Rightarrow> world \<Rightarrow> (error + string option) \<times> world" where
  "prepare_wav_artifact sys backend_result w =
     (let (source_path, temp_source, w1) =
            (case path_or_stream backend_result of
               Path p \<Rightarrow> (p, None, w)
             | BytesIO data \<Rightarrow>
                 (let (t, w') = write_temp_file sys data (filename backend_result) w
                  in (t, Some t, w')));
          (r, w2) = ensure_wav_audio sys source_path w1;
          wav_path = (case r of Inr p \<Rightarrow> Some p | Inl e \<Rightarrow> None);
          w3 = (case temp_source of
                  Some t \<Rightarrow> (if wav_path = None \<or> wav_path \<noteq> Some t
                             then unlink_missing_ok t w2 else w2)
                | None \<Rightarrow> w2)
      in (case r of
            Inr p \<Rightarrow> Inr (Some p)
          | Inl (NoAudioStreamError m) \<Rightarrow> Inr None
          | Inl e \<Rightarrow> Inl e,
          w3))"

definition SCENE_FILTER :: string where
  "SCENE_FILTER = ''select='' @ [CHR 0x27] @ ''gt(scene,0.3)+eq(n,0)'' @ [CHR 0x27] @ '',showinfo''"

definition UNIFORM_FILTER :: string where
  "UNIFORM_FILTER = ''fps=1,showinfo''"

definition describe_video_frames ::
  "os \<Rightarrow> AsrPipelineLite \<Rightarrow> BackendResult \<Rightarrow> world \<Rightarrow> ConversationItem list \<times> world" where
  "describe_video_frames sys self backend_result w =
     (case vision_provider self of
        None \<Rightarrow> ([], w)
      | Some describe \<Rightarrow>
          (let (video_path, temp_source, w1) =
                 (case path_or_stream backend_result of
                    Path p \<Rightarrow> (p, None, w)
                  | BytesIO data \<Rightarrow>
                      (let (t, w') = write_temp_file sys data (filename backend_result) w
                       in (t, Some t, w')));
               items =
                 (case extract_keyframes_with_timestamps video_path (files w1 video_path \<noteq> None)
                         (run_ffmpeg_extract sys video_path SCENE_FILTER)
                         (run_ffmpeg_extract sys video_path UNIFORM_FILTER) 16 of
                    Inl e \<Rightarrow> []
                  | Inr frames \<Rightarrow>
                      if frames = [] then []
                      else (case describe frames of Inl e \<Rightarrow> [] | Inr described \<Rightarrow> described));
               w2 = (case temp_source of Some t \<Rightarrow> unlink_missing_ok t w1 | None \<Rightarrow> w1)
           in (items, w2)))"

text \<open>
  \<^verbatim>\<open>transcribe_with_artifacts\<close>, in two parts. The first is the function up to the end
  of the speech-to-text stage: it returns the validated input, the fingerprint, the WAV
  path and the conversation.
\<close>

definition FALLBACK_NOTICE :: string where
  "FALLBACK_NOTICE =
     ''Audio transcription is empty for video input; attempting keyframe-based analysis.''"

definition speech_to_text_stage ::
  "(bytes \<Rightarrow> string) \<Rightarrow> os \<Rightarrow> AsrPipelineLite \<Rightarrow> pipeline_input \<Rightarrow> string option \<Rightarrow> string
   \<Rightarrow> world \<Rightarrow> (error + BackendResult \<times> string \<times> string option \<times> ConversationItem list) \<times> world"
  where
  "speech_to_text_stage sha256 sys self inp fname language w =
     (case validate_input (files w) inp fname of
        Inl e \<Rightarrow> (Inl e, w)
      | Inr backend_result \<Rightarrow>
          (let binary_hash = compute_binary_hash sha256 (files w) backend_result in
           case prepare_wav_artifact sys backend_result w of
             (Inl e, w1) \<Rightarrow> (Inl e, w1)
           | (Inr wav_path, w1) \<Rightarrow>
               (case (case wav_path of
                        None \<Rightarrow> Inr []
                      | Some wav \<Rightarrow>
                          (case path_or_stream backend_result of
                             Path p \<Rightarrow> transcribe_path (provider self) wav language
                           | BytesIO buf \<Rightarrow>
                               (case files w1 wav of
                                  None \<Rightarrow> Inl (FileNotFoundError wav)
                                | Some wav_bytes \<Rightarrow>
                                    transcribe_bytes (provider self) wav_bytes
                                      (filename backend_result) language))) of
                  Inl e \<Rightarrow> (Inl e, w1)
                | Inr conversation \<Rightarrow>
                    (Inr (backend_result, binary_hash, wav_path, conversation), w1))))"

definition transcribe_with_artifacts ::
  "(bytes \<Rightarrow> string) \<Rightarrow> os \<Rightarrow> AsrPipelineLite \<Rightarrow> pipeline_input \<Rightarrow> string option \<Rightarrow> string
   \<Rightarrow> string option \<Rightarrow> world \<Rightarrow> (error + TranscriptionResult) \<times> world" where
  "transcribe_with_artifacts sha256 sys self inp fname language summary w =
     (case speech_to_text_stage sha256 sys self inp fname language w of
        (Inl e, w1) \<Rightarrow> (Inl e, w1)
      | (Inr (backend_result, binary_hash, wav_path, conversation), w1) \<Rightarrow>
          (let is_video = is_video_file (filename backend_result);
               (conversation', w2) =
                 (if should_use_visual_fallback self is_video conversation then
                    (let w' = w1\<lparr>notices := notices w1 @ [FALLBACK_NOTICE]\<rparr>;
                         (visual_items, w'') = describe_video_frames sys self backend_result w'
                     in (if visual_items \<noteq> [] then conversation @ visual_items
                         else conversation, w''))
                  else (conversation, w1));
               mimetype = (if is_video then ''video/mp4'' else ''audio/wav'')
           in (case build_docling_document (filename backend_result) mimetype binary_hash
                      conversation' summary of
                 Inl e \<Rightarrow> Inl e
               | Inr doc \<Rightarrow> Inr \<lparr>document = doc, audio_path = wav_path\<rparr>,
               w2)))"

section \<open>Example environments\<close>

text \<open>
  A small world, an operating system whose converter exits with a given status and
  diagnostic text, and providers that answer with given items. They are the concrete
  inputs at which the theorems below are instantiated.
\<close>

definition example_files :: files where
  "example_files = map_of [(''/data/talk.mp4'', ''abc''), (''/data/talk.WAV'', ''RIFF'')]"

definition example_world :: world where
  "example_world = \<lparr>files = example_files, commands = [], notices = []\<rparr>"

definition example_os :: "int \<Rightarrow> string \<Rightarrow> os" where
  "example_os rc err =
     \<lparr>mkstemp = (\<lambda>s. ''/tmp/tmpab12'' @ s),
      named_temporary_file = (\<lambda>s. ''/tmp/tmpcd34'' @ s),
      subprocess_run = (\<lambda>cmd fs. (\<lparr>returncode = rc, stderr = err\<rparr>, fs)),
      run_ffmpeg_extract = (\<lambda>source vf. Inr ([''/tmp/keyframes_1/frame_0001.jpg''], [0]))\<rparr>"

definition example_item :: "string \<Rightarrow> ConversationItem" where
  "example_item t = \<lparr>item_text = t, start_time = Some 0, end_time = Some 1200,
                     speaker_id = None, speaker = None, words = []\<rparr>"

definition example_provider :: "ConversationItem list \<Rightarrow> SpeechToTextProvider" where
  "example_provider items =
     \<lparr>transcribe_path = (\<lambda>p language. Inr items),
      transcribe_bytes = (\<lambda>d f language. Inr items)\<rparr>"

definition example_pipeline ::
  "ConversationItem list \<Rightarrow> ImageCaptionProvider option \<Rightarrow> AsrPipelineLite" where
  "example_pipeline items vision = \<lparr>provider = example_provider items, vision_provider = vision\<rparr>"

text \<open>
  The segment of the sample response in \<^verbatim>\<open>tests/test_client.py\<close>, in English: a segment
  that starts at zero, with one word that starts at zero.
\<close>

definition sample_word :: "(string \<times> json) list" where
  "sample_word = [(''word'', JStr ''hello''), (''start'', JNum 0), (''end'', JNum (3 / 5))]"

definition sample_segment :: "(string \<times> json) list" where
  "sample_segment =
     [(''text'', JStr ''hello world''), (''start'', JNum 0), (''end'', JNum (6 / 5)),
      (''words'', JArr [JObj sample_word])]"

text \<open>
  Two frames with their files, a caption response, and a vision service that rejects
  the requests for the first frame and captions the others.
\<close>

definition example_frames :: "(string \<times> rat) list" where
  "example_frames = [(''/tmp/k/frame_0001.jpg'', 0), (''/tmp/k/frame_0002.jpg'', 7 / 2)]"

definition example_frame_files :: files where
  "example_frame_files =
     map_of [(''/tmp/k/frame_0001.jpg'', ''jpg1''), (''/tmp/k/frame_0002.jpg'', ''jpg2'')]"

definition example_caption :: json where
  "example_caption =
     JObj [(''output'', JObj [(''choices'', JArr [JObj [(''message'',
        JObj [(''content'', JArr [JObj [(''text'', JStr ''a cat'')]])])]])])]"

definition example_vision_post :: "int \<Rightarrow> int \<Rightarrow> http_result" where
  "example_vision_post idx attempt =
     (if idx = 1
      then Responded \<lparr>status_code = 400, response_text = ''bad request'', response_json = None\<rparr>
      else Responded \<lparr>status_code = 200, response_text = [], response_json = Some example_caption\<rparr>)"

definition example_float_ops :: float_ops where
  "example_float_ops =
     \<lparr>times_1000 = (\<lambda>t. t * 1000),
      format_3f = (\<lambda>t. if t = 7 / 2 then ''3.500'' else ''0.000'')\<rparr>"

definition example_keyframe :: ConversationItem where
  "example_keyframe = keyframe_item example_float_ops ''a cat'' (7 / 2) 2"

definition example_vision :: ImageCaptionProvider where
  "example_vision frames = Inr [example_keyframe]"

chapter \<open>Properties\<close>

section \<open>Rendering of an item\<close>

lemma digit_char_0: "digit_char 0 = CHR ''0''"
  by (simp add: digit_char_def)

lemma is_digit_digit_char: "n < 10 \<Longrightarrow> is_digit (digit_char n)"
proof -
  assume "n < 10"
  then have "n \<in> {0,1,2,3,4,5,6,7,8,9}" by auto
  then show ?thesis by (auto simp: is_digit_def digit_char_def)
qed

lemma str_nat_1: "n < 10 \<Longrightarrow> str_nat n = [digit_char n]"
  by (simp add: str_nat.simps)

lemma str_nat_2:
  "10 \<le> n \<Longrightarrow> n < 100 \<Longrightarrow> str_nat n = [digit_char (n div 10), digit_char (n mod 10)]"
  by (subst str_nat.simps) (simp add: str_nat_1)

lemma str_nat_3:
  "100 \<le> n \<Longrightarrow> n < 1000 \<Longrightarrow>
   str_nat n = [digit_char (n div 100), digit_char (n div 10 mod 10), digit_char (n mod 10)]"
  by (subst str_nat.simps) (simp add: str_nat_2 div_mult2_eq[symmetric])

lemma zfill2:
  "n < 100 \<Longrightarrow> zfill 2 (str_nat n) = [digit_char (n div 10), digit_char (n mod 10)]"
  by (cases "n < 10") (simp_all add: zfill_def str_nat_1 str_nat_2 digit_char_0 numeral_2_eq_2)

lemma zfill3:
  assumes n: "n < 1000"
  shows "zfill 3 (str_nat n) =
           [digit_char (n div 100), digit_char (n div 10 mod 10), digit_char (n mod 10)]"
proof -
  consider "n < 10" | "10 \<le> n" "n < 100" | "100 \<le> n" by linarith
  then show ?thesis
  proof cases
    case 1 then show ?thesis by (simp add: zfill_def str_nat_1 digit_char_0 numeral_2_eq_2)
  next
    case 2 then show ?thesis by (simp add: zfill_def str_nat_2 digit_char_0)
  next
    case 3 with n show ?thesis by (simp add: zfill_def str_nat_3)
  qed
qed

text \<open>
  A millisecond count from zero up to (not including) one hundred hours renders as
  \<^verbatim>\<open>HH:MM:SS.mmm\<close>.
\<close>

lemma format_ms_digits:
  assumes "0 \<le> v" "v < 360000000"
  shows "HH_MM_SS_mmm (format_ms (Some v))"
proof -
  define n where "n = nat (py_int v)"
  have pv: "py_int v = int n" using assms by (simp add: n_def py_int_def)
  have "\<lfloor>v\<rfloor> < 360000000" using assms(2) by (simp add: floor_less_iff)
  moreover have "0 \<le> \<lfloor>v\<rfloor>" using assms(1) by simp
  ultimately have "nat \<lfloor>v\<rfloor> < 360000000" by linarith
  then have nlt: "n < 360000000" using assms by (simp add: n_def py_int_def)
  define h where "h = n div 1000 div 60 div 60"
  define m where "m = n div 1000 div 60 mod 60"
  define s where "s = n div 1000 mod 60"
  define ms where "ms = n mod 1000"
  have hlt: "h < 100" using nlt unfolding h_def by (simp add: div_mult2_eq[symmetric])
  have bounds: "m < 60" "s < 60" "ms < 1000" by (simp_all add: m_def s_def ms_def)
  have eqs: "int n div 1000 div 60 div 60 = int h" "int n div 1000 div 60 mod 60 = int m"
    "int n div 1000 mod 60 = int s" "int n mod 1000 = int ms"
    by (simp_all add: h_def m_def s_def ms_def zdiv_int zmod_int)
  have fm: "format_ms (Some v) = zfill 2 (str_nat h) @ '':'' @ zfill 2 (str_nat m) @ '':'' @
      zfill 2 (str_nat s) @ ''.'' @ zfill 3 (str_nat ms)"
    by (simp add: format_ms_def Let_def pv eqs format_int0_def)
  have d: "h div 10 < 10" "h mod 10 < 10" "m div 10 < 10" "m mod 10 < 10"
    "s div 10 < 10" "s mod 10 < 10"
    "ms div 100 < 10" "ms div 10 mod 10 < 10" "ms mod 10 < 10"
    using hlt bounds by simp_all
  show ?thesis
    unfolding fm using hlt bounds d
    by (simp add: zfill2 zfill3 HH_MM_SS_mmm_def is_digit_digit_char)
qed

text \<open>
  C2, as the code has it. For an item whose text does not start with the keyframe
  marker, \<open>to_string\<close> is the text, preceded by the speaker tag when a speaker is set, preceded
  by the tag \<^verbatim>\<open>[time: A-B]\<close> when both bounds are set, the parts separated by single spaces;
  when a bound is unset no time tag is written at all. Each bound \<open>A\<close>, \<open>B\<close> between zero
  and one hundred hours is rendered as \<^verbatim>\<open>HH:MM:SS.mmm\<close>.
\<close>

theorem to_string_plain_item:
  assumes "\<not> prefix KEYFRAME_PREFIX (item_text it)"
  shows "to_string it =
           (case (start_time it, end_time it) of
              (Some s, Some e) \<Rightarrow>
                ''[time: '' @ format_ms (Some s) @ ''-'' @ format_ms (Some e) @ ''] ''
            | _ \<Rightarrow> [])
           @ (case speaker it of Some sp \<Rightarrow> ''[speaker:'' @ sp @ ''] '' | None \<Rightarrow> [])
           @ item_text it
         \<and> (\<forall>v. 0 \<le> v \<and> v < 360000000 \<longrightarrow> HH_MM_SS_mmm (format_ms (Some v)))"
  using assms
  by (simp add: to_string_def time_tag_of_def opt_chunk_def format_ms_digits
           split: option.splits)

theorem to_string_plain_item_witness:
  "\<not> prefix KEYFRAME_PREFIX ''hello world''
   \<and> to_string \<lparr>item_text = ''hello world'', start_time = Some 0, end_time = Some 1200,
                 speaker_id = None, speaker = Some ''A'', words = []\<rparr>
     = ''[time: 00:00:00.000-00:00:01.200] [speaker:A] hello world''
   \<and> HH_MM_SS_mmm (format_ms (Some 1200))"
proof -
  have p: "\<not> prefix KEYFRAME_PREFIX ''hello world''"
    by (simp add: KEYFRAME_PREFIX_def)
  have f: "format_ms (Some 0) = ''00:00:00.000''" "format_ms (Some 1200) = ''00:00:01.200''"
    by (simp_all add: format_ms_def py_int_def format_int0_def zfill_def str_nat.simps
          digit_char_def numeral_2_eq_2)
  note t = to_string_plain_item [of "\<lparr>item_text = ''hello world'', start_time = Some 0,
      end_time = Some 1200, speaker_id = None, speaker = Some ''A'', words = []\<rparr>"]
  from t p have a: "to_string \<lparr>item_text = ''hello world'', start_time = Some 0,
      end_time = Some 1200, speaker_id = None, speaker = Some ''A'', words = []\<rparr>
      = ''[time: 00:00:00.000-00:00:01.200] [speaker:A] hello world''"
    by (simp add: f)
  from t p have "\<forall>v::rat. 0 \<le> v \<and> v < 360000000 \<longrightarrow> HH_MM_SS_mmm (format_ms (Some v))"
    by simp
  then have b: "HH_MM_SS_mmm (format_ms (Some 1200))"
    by simp
  from p a b show ?thesis by simp
qed

text \<open>
  C2, as the specification words it, fails: with the end bound unset the rendering carries
  neither a time tag nor the placeholder \<^verbatim>\<open>--:--:--.---\<close>.
\<close>

theorem to_string_unset_bound_counterexample:
  "to_string \<lparr>item_text = ''hello'', start_time = Some 0, end_time = None,
               speaker_id = None, speaker = None, words = []\<rparr> = ''hello''
   \<and> \<not> prefix ''[time: '' ''hello''
   \<and> \<not> sublist (format_ms None) ''hello''"
  by (simp add: to_string_def time_tag_of_def opt_chunk_def KEYFRAME_PREFIX_def
        format_ms_def sublist_Cons_right)

section \<open>The order of conversation items\<close>

lemma word_key_inj: "word_key a = word_key b \<longleftrightarrow> a = b"
  by (auto simp: word_key_def)

lemma opt_lt_alike: "set_alike a b \<Longrightarrow> a \<noteq> b \<Longrightarrow> opt_lt a b = Inr (a < b)"
  by (cases a; cases b) (simp_all add: set_alike_def opt_lt_def)

lemma word_lt_key:
  assumes "words_alike a b"
  shows "word_lt a b = Inr (word_key a < word_key b)"
  using assms
  by (auto simp: word_lt_def word_key_def words_alike_def opt_lt_alike less_prod_def'
      ConversationWord.equality)

lemma words_lt_key:
  "list_all (\<lambda>(x, y). words_alike x y) (zip xs ys) \<Longrightarrow>
   words_lt xs ys = Inr (map word_key xs < map word_key ys)"
proof (induction xs ys rule: words_lt.induct)
  case (4 x xs y ys)
  then show ?case
    by (auto simp: word_lt_key word_key_inj)
qed simp_all

lemma item_key_inj: "item_key a = item_key b \<longleftrightarrow> a = b"
proof
  assume k: "item_key a = item_key b"
  then have "map word_key (words a) = map word_key (words b)"
    by (simp add: item_key_def)
  then have "words a = words b"
    using word_key_inj by (metis injI list.inj_map_strong)
  with k show "a = b" by (simp add: item_key_def ConversationItem.equality)
qed simp

lemma item_lt_key:
  assumes "items_alike a b"
  shows "item_lt a b = Inr (item_key a < item_key b)"
  using assms
  by (auto simp: item_lt_def item_key_def items_alike_def opt_lt_alike less_prod_def'
      words_lt_key)

text \<open>
  With comparisons that never raise, the sort is the library's insertion sort on the keys.
\<close>

lemma insort_item_key:
  assumes "\<forall>y \<in> set ys. items_alike y x"
  shows "insort_item x ys = Inr (insort_key item_key x ys)"
  using assms
proof (induction ys)
  case Nil
  then show ?case by simp
next
  case (Cons y ys)
  then have "item_lt y x = Inr (item_key y < item_key x)"
    by (simp add: item_lt_key)
  with Cons show ?case
    by (cases "item_key y < item_key x") (auto simp: not_less)
qed

lemma sorted_items_key:
  assumes "\<forall>a \<in> set xs. \<forall>b \<in> set xs. items_alike a b"
  shows "sorted_items xs = Inr (sort_key item_key xs)"
  using assms
proof (induction xs)
  case Nil
  then show ?case by simp
next
  case (Cons x xs)
  then have "sorted_items xs = Inr (sort_key item_key xs)" by simp
  moreover from Cons.prems have "\<forall>y \<in> set (sort_key item_key xs). items_alike y x" by simp
  ultimately show ?case by (simp add: insort_item_key)
qed

text \<open>
  On a list of items whose optional fields are set alike (for any two of them, each of
  start time, end time, speaker id, speaker and the word timestamps is set in both or
  unset in both), no comparison raises and \<open>sorted\<close> is the stable sort by the tuple
  \<open>(text, start_time, end_time, speaker_id, speaker, words)\<close>, the fields in the order
  the dataclass declares them.
\<close>

lemma sorted_by_declared_fields:
  assumes "\<forall>a \<in> set xs. \<forall>b \<in> set xs. items_alike a b"
  shows "sorted_items xs = Inr (sort_key item_key xs)
         \<and> (\<forall>a \<in> set xs. \<forall>b \<in> set xs.
               item_lt a b = Inr (item_key a < item_key b)
               \<and> (a \<noteq> b \<longrightarrow> item_key a \<noteq> item_key b))"
  using assms by (simp add: sorted_items_key item_lt_key item_key_inj)

lemma sorted_by_declared_fields_example:
  "sorted_items [\<lparr>item_text = ''b'', start_time = Some 0, end_time = Some 1,
                   speaker_id = None, speaker = None, words = []\<rparr>,
                 \<lparr>item_text = ''a'', start_time = Some 5, end_time = Some 6,
                   speaker_id = None, speaker = None, words = []\<rparr>]
     = Inr [\<lparr>item_text = ''a'', start_time = Some 5, end_time = Some 6,
              speaker_id = None, speaker = None, words = []\<rparr>,
            \<lparr>item_text = ''b'', start_time = Some 0, end_time = Some 1,
              speaker_id = None, speaker = None, words = []\<rparr>]
   \<and> item_lt \<lparr>item_text = ''a'', start_time = Some 5, end_time = Some 6,
               speaker_id = None, speaker = None, words = []\<rparr>
              \<lparr>item_text = ''b'', start_time = Some 0, end_time = Some 1,
               speaker_id = None, speaker = None, words = []\<rparr> = Inr True"
proof -
  let ?x = "\<lparr>item_text = ''b'', start_time = Some (0::rat), end_time = Some (1::rat),
              speaker_id = None::int option, speaker = None::string option,
              words = []::ConversationWord list\<rparr>"
  let ?y = "\<lparr>item_text = ''a'', start_time = Some (5::rat), end_time = Some (6::rat),
              speaker_id = None::int option, speaker = None::string option,
              words = []::ConversationWord list\<rparr>"
  have h: "\<forall>a \<in> set [?x, ?y]. \<forall>b \<in> set [?x, ?y]. items_alike a b"
    by (simp add: items_alike_def set_alike_def)
  have k: "sort_key item_key [?x, ?y] = [?y, ?x]"
    by (simp add: item_key_def)
  have l: "item_key ?y < item_key ?x"
    by (simp add: item_key_def)
  from sorted_by_declared_fields [OF h] have "sorted_items [?x, ?y] = Inr (sort_key item_key [?x, ?y])"
    by blast
  with k have a: "sorted_items [?x, ?y] = Inr [?y, ?x]" by simp
  from sorted_by_declared_fields [OF h] have "item_lt ?y ?x = Inr (item_key ?y < item_key ?x)"
    by simp
  with l have b: "item_lt ?y ?x = Inr True" by simp
  from a b show ?thesis by blast
qed

lemma spoken_lines:
  "to_string \<lparr>item_text = ''hello'', start_time = Some 0, end_time = Some 1000,
               speaker_id = None, speaker = None, words = []\<rparr>
     = ''[time: 00:00:00.000-00:00:01.000] hello''"
  "to_string \<lparr>item_text = ''and then'', start_time = Some 1000, end_time = Some 2000,
               speaker_id = None, speaker = None, words = []\<rparr>
     = ''[time: 00:00:01.000-00:00:02.000] and then''"
  by (simp_all add: to_string_def time_tag_of_def opt_chunk_def KEYFRAME_PREFIX_def
      format_ms_def py_int_def format_int0_def zfill_def str_nat.simps digit_char_def
      numeral_2_eq_2)

lemma keyframe_ten_before_two:
  "item_lt (keyframe_item fl d10 9 10) (keyframe_item fl d2 1 2) = Inr True"
  by (simp add: item_lt_def keyframe_item_def wrap_keyframe_text_def KEYFRAME_PREFIX_def
      str_int_def str_nat.simps digit_char_def Let_def)

text \<open>
  C1. The order applied by \<open>sorted\<close> in \<open>build_docling_document\<close> is not consistent with
  the tuple \<open>(start_time, end_time, text)\<close>. The dataclass declares \<open>text\<close> before the
  timestamps, so a transcript of two segments, \<open>hello\<close> from 0 to 1 second and
  \<open>and then\<close> from 1 to 2 seconds, every timestamp set, is written to the document with
  the later segment first; and two keyframe items, which \<open>describe_frames\<close> returns in
  the order of the video, are sorted with frame 10 (at 9 seconds) before frame 2 (at 1
  second), since their texts begin with the frame index written in decimal.
\<close>

theorem sorted_out_of_time_order:
  "build_docling_document ''talk.wav'' ''audio/wav'' h
     [\<lparr>item_text = ''hello'', start_time = Some 0, end_time = Some 1000,
        speaker_id = None, speaker = None, words = []\<rparr>,
      \<lparr>item_text = ''and then'', start_time = Some 1000, end_time = Some 2000,
        speaker_id = None, speaker = None, words = []\<rparr>] None
     = Inr \<lparr>doc_name = ''talk.wav'',
            doc_origin = \<lparr>origin_filename = ''talk.wav'', origin_mimetype = ''audio/wav'',
                           origin_binary_hash = h\<rparr>,
            doc_texts = [''[time: 00:00:01.000-00:00:02.000] and then'',
                         ''[time: 00:00:00.000-00:00:01.000] hello'']\<rparr>
   \<and> sorted_items [keyframe_item fl d2 1 2, keyframe_item fl d10 9 10]
     = Inr [keyframe_item fl d10 9 10, keyframe_item fl d2 1 2]"
proof
  have lt: "item_lt \<lparr>item_text = ''and then'', start_time = Some 1000, end_time = Some 2000,
        speaker_id = None, speaker = None, words = []\<rparr>
      \<lparr>item_text = ''hello'', start_time = Some 0, end_time = Some 1000,
        speaker_id = None, speaker = None, words = []\<rparr> = Inr True"
    by (simp add: item_lt_def)
  show "build_docling_document ''talk.wav'' ''audio/wav'' h
     [\<lparr>item_text = ''hello'', start_time = Some 0, end_time = Some 1000,
        speaker_id = None, speaker = None, words = []\<rparr>,
      \<lparr>item_text = ''and then'', start_time = Some 1000, end_time = Some 2000,
        speaker_id = None, speaker = None, words = []\<rparr>] None
     = Inr \<lparr>doc_name = ''talk.wav'',
            doc_origin = \<lparr>origin_filename = ''talk.wav'', origin_mimetype = ''audio/wav'',
                           origin_binary_hash = h\<rparr>,
            doc_texts = [''[time: 00:00:01.000-00:00:02.000] and then'',
                         ''[time: 00:00:00.000-00:00:01.000] hello'']\<rparr>"
    by (simp add: build_docling_document_def lt spoken_lines)
  show "sorted_items [keyframe_item fl d2 1 2, keyframe_item fl d10 9 10]
     = Inr [keyframe_item fl d10 9 10, keyframe_item fl d2 1 2]"
    by (simp add: keyframe_ten_before_two)
qed

text \<open>
  With every timestamp set the comparison can still raise: two items equal in text and
  times, one with a speaker id and one without.
\<close>

lemma item_lt_speaker_id_raises:
  "item_lt \<lparr>item_text = ''a'', start_time = Some 0, end_time = Some 1,
             speaker_id = Some 1, speaker = None, words = []\<rparr>
           \<lparr>item_text = ''a'', start_time = Some 0, end_time = Some 1,
             speaker_id = None, speaker = None, words = []\<rparr> = Inl TypeError"
  by (simp add: item_lt_def opt_lt_def)

section \<open>Keyframe downsampling\<close>

lemma py_stride_subseq: "subseq (py_stride k xs) xs"
proof (induction k xs rule: py_stride.induct)
  case (1 step)
  then show ?case by simp
next
  case (2 step x xs)
  have "subseq (drop (step - 1) xs) xs"
    by (rule suffix_imp_subseq) (rule suffix_drop)
  with 2 have "subseq (py_stride step (drop (step - 1) xs)) xs"
    using subseq_order.trans by blast
  then show ?case by simp
qed

lemma py_stride_length:
  "0 < k \<Longrightarrow> length (py_stride k xs) = (length xs + k - 1) div k"
proof (induction k xs rule: py_stride.induct)
  case (1 step)
  then show ?case by simp
next
  case (2 step x xs)
  show ?case
  proof (cases "step - 1 \<le> length xs")
    case True
    with 2 have "length (py_stride step (x # xs)) = Suc ((length xs - (step - 1) + step - 1) div step)"
      by simp
    also have "length xs - (step - 1) + step - 1 = length xs" using True 2(2) by simp
    also have "Suc (length xs div step) = (length (x # xs) + step - 1) div step"
      using 2(2) by simp
    finally show ?thesis .
  next
    case False
    then have "length xs + 1 < step" by simp
    with 2 False show ?thesis by simp
  qed
qed

lemma py_stride_nth:
  "0 < k \<Longrightarrow> i < length (py_stride k xs) \<Longrightarrow> py_stride k xs ! i = xs ! (i * k)"
proof (induction k xs arbitrary: i rule: py_stride.induct)
  case (1 step)
  then show ?case by simp
next
  case (2 step x xs)
  show ?case
  proof (cases i)
    case 0
    then show ?thesis by simp
  next
    case (Suc j)
    with 2(3) have j: "j < length (py_stride step (drop (step - 1) xs))" by simp
    then have "drop (step - 1) xs \<noteq> []" by auto
    then have le: "step - 1 \<le> length xs" by simp
    from 2(1)[OF 2(2) j] have "py_stride step (drop (step - 1) xs) ! j = drop (step - 1) xs ! (j * step)" .
    also have "\<dots> = xs ! (step - 1 + j * step)" using le by simp
    also have "\<dots> = (x # xs) ! (Suc j * step)" using 2(2) by (cases step) (simp_all add: ac_simps)
    finally show ?thesis using Suc by simp
  qed
qed

lemma stride_keeps_enough:
  fixes m n :: nat
  assumes "0 < m" "m < n"
  shows "m \<le> (n + n div m - 1) div (n div m)"
proof -
  define s where "s = n div m"
  have "m \<le> n" using assms by simp
  then have s: "0 < s" using assms(1) unfolding s_def by (metis div_greater_zero_iff)
  have "s * m \<le> n" by (simp add: s_def)
  then have "m \<le> n div s" using s by (simp add: less_eq_div_iff_mult_less_eq mult.commute)
  also have "n div s \<le> (n + s - 1) div s" by (rule div_le_mono) (use s in simp)
  finally show ?thesis by (simp add: s_def)
qed

text \<open>
  C3, as the code has it. For \<open>max_frames = M \<ge> 1\<close> and more than \<open>M\<close> pairs, the step is
  \<open>N div M\<close> (at least one), the result is the first \<open>M\<close> of the pairs at the indices
  \<open>0, step, 2 * step, \<dots>\<close>: exactly \<open>M\<close> pairs, a subsequence of the input in the input's
  order.
\<close>

theorem downsample_positive:
  assumes "1 \<le> M" "M < int (length pairs)"
  shows "downsample pairs M
           = Inr (take (nat M) (py_stride (length pairs div nat M) pairs))
         \<and> length (take (nat M) (py_stride (length pairs div nat M) pairs)) = nat M
         \<and> subseq (take (nat M) (py_stride (length pairs div nat M) pairs)) pairs
         \<and> (\<forall>i < nat M. take (nat M) (py_stride (length pairs div nat M) pairs) ! i
                            = pairs ! (i * (length pairs div nat M)))"
proof -
  define m where "m = nat M"
  define n where "n = length pairs"
  have m: "0 < m" "m < n" "M = int m" using assms by (simp_all add: m_def n_def)
  define s where "s = n div m"
  have "m \<le> n" using m by simp
  then have s: "0 < s" using m(1) unfolding s_def by (metis div_greater_zero_iff)
  have step: "nat (max 1 (int n div M)) = s"
    using s m by (simp add: s_def zdiv_int[symmetric] max_def)
  have len: "m \<le> length (py_stride s pairs)"
    using stride_keeps_enough[OF m(1,2)] s by (simp add: py_stride_length s_def n_def)
  have d: "downsample pairs M = Inr (take m (py_stride s pairs))"
    using m step by (simp add: downsample_def py_upto_def n_def[symmetric] Let_def)
  have sub: "subseq (take m (py_stride s pairs)) pairs"
    using py_stride_subseq[of s pairs] prefix_imp_subseq[OF take_is_prefix]
      subseq_order.trans by blast
  have nth: "\<forall>i<m. take m (py_stride s pairs) ! i = pairs ! (i * s)"
    using len s by (simp add: py_stride_nth)
  from d len sub nth show ?thesis
    by (simp add: m_def[symmetric] n_def[symmetric] s_def[symmetric] min_absorb2)
qed

theorem downsample_positive_witness:
  "(1::int) \<le> 2 \<and> 2 < int (length [(1::nat, 10::nat), (2, 20), (3, 30), (4, 40), (5, 50)])
   \<and> downsample [(1::nat, 10::nat), (2, 20), (3, 30), (4, 40), (5, 50)] 2
       = Inr [(1, 10), (3, 30)]"
proof -
  have h: "(1::int) \<le> 2"
    "2 < int (length [(1::nat, 10::nat), (2, 20), (3, 30), (4, 40), (5, 50)])"
    by simp_all
  from downsample_positive [OF h]
  have "downsample [(1::nat, 10::nat), (2, 20), (3, 30), (4, 40), (5, 50)] 2
      = Inr (take (nat 2) (py_stride
          (length [(1::nat, 10::nat), (2, 20), (3, 30), (4, 40), (5, 50)] div nat 2)
          [(1::nat, 10::nat), (2, 20), (3, 30), (4, 40), (5, 50)]))"
    by blast
  then show ?thesis by simp
qed

text \<open>
  C3, as the specification words it, fails for a \<open>max_frames\<close> that is not positive: with
  \<open>max_frames = 0\<close> and one pair the division raises, and with \<open>max_frames = - 1\<close> and five
  pairs four are returned, more than \<open>max_frames\<close>.
\<close>

theorem downsample_nonpositive_counterexample:
  "(0::int) < int (length [(1::nat, 10::nat)])
   \<and> downsample [(1::nat, 10::nat)] 0 = Inl ZeroDivisionError
   \<and> downsample [(1::nat, 10::nat), (2, 20), (3, 30), (4, 40), (5, 50)] (- 1)
       = Inr [(1, 10), (2, 20), (3, 30), (4, 40)]
   \<and> \<not> int (length [(1::nat, 10::nat), (2, 20), (3, 30), (4, 40)]) \<le> - 1"
  by (simp add: downsample_def py_upto_def)

section \<open>Audio extraction\<close>

lemma lower_wav: "lower ''.wav'' = ''.wav''"
  by (simp add: lower.simps lower_char_def)

lemma ensure_wav_audio_wav:
  "lower (Path_suffix source) = ''.wav'' \<Longrightarrow> ensure_wav_audio sys source w = (Inr source, w)"
  by (simp add: ensure_wav_audio_def)

lemma ensure_wav_audio_other:
  assumes "lower (Path_suffix source) \<noteq> ''.wav''"
  shows "ensure_wav_audio sys source w =
     (let tmp = mkstemp sys ''.wav'';
          cmd = ffmpeg_command source tmp;
          run = subprocess_run sys cmd ((files w)(tmp \<mapsto> []));
          w2 = w\<lparr>files := snd run, commands := commands w @ [cmd]\<rparr>
      in if returncode (fst run) \<noteq> 0 then
           (if no_audio_marker (lower (stderr (fst run)))
            then Inl (NoAudioStreamError (''No audio stream found in file: '' @ source))
            else Inl (RuntimeError (''ffmpeg conversion failed: '' @ stderr (fst run))),
            unlink_missing_ok tmp w2)
         else (Inr tmp, w2))"
  using assms
  by (simp add: ensure_wav_audio_def Let_def split: prod.splits)

text \<open>
  C5. A path whose suffix is \<^verbatim>\<open>.wav\<close> in any letter case is returned as it is, and the
  world is unchanged: no file is created and no command is run. For any other path the
  converter is run once, on a file that \<open>mkstemp\<close> has just created; a path that is
  returned is that file, and it differs from the source. The one assumption on the
  operating system is that the name \<open>mkstemp\<close> creates carries the suffix it was asked for.
\<close>

theorem ensure_wav_audio_path:
  assumes "Path_suffix (mkstemp sys ''.wav'') = ''.wav''"
  shows "(lower (Path_suffix source) = ''.wav'' \<longrightarrow>
            ensure_wav_audio sys source w = (Inr source, w))
         \<and> (lower (Path_suffix source) \<noteq> ''.wav'' \<longrightarrow>
              mkstemp sys ''.wav'' \<noteq> source
              \<and> commands (snd (ensure_wav_audio sys source w))
                  = commands w @ [ffmpeg_command source (mkstemp sys ''.wav'')]
              \<and> (\<forall>p. fst (ensure_wav_audio sys source w) = Inr p \<longrightarrow> p = mkstemp sys ''.wav'')
              \<and> (returncode (fst (subprocess_run sys (ffmpeg_command source (mkstemp sys ''.wav''))
                                  ((files w)(mkstemp sys ''.wav'' \<mapsto> [])))) = 0 \<longrightarrow>
                   fst (ensure_wav_audio sys source w) = Inr (mkstemp sys ''.wav'')))"
proof (intro conjI impI)
  assume "lower (Path_suffix source) = ''.wav''"
  then show "ensure_wav_audio sys source w = (Inr source, w)"
    by (rule ensure_wav_audio_wav)
next
  assume n: "lower (Path_suffix source) \<noteq> ''.wav''"
  show "mkstemp sys ''.wav'' \<noteq> source"
  proof
    assume "mkstemp sys ''.wav'' = source"
    with assms have "Path_suffix source = ''.wav''" by simp
    with n show False by (simp add: lower_wav)
  qed
  show "commands (snd (ensure_wav_audio sys source w))
          = commands w @ [ffmpeg_command source (mkstemp sys ''.wav'')]"
    by (simp add: ensure_wav_audio_other[OF n] Let_def unlink_missing_ok_def)
  show "\<forall>p. fst (ensure_wav_audio sys source w) = Inr p \<longrightarrow> p = mkstemp sys ''.wav''"
    by (simp add: ensure_wav_audio_other[OF n] Let_def)
  assume "returncode (fst (subprocess_run sys (ffmpeg_command source (mkstemp sys ''.wav''))
                                  ((files w)(mkstemp sys ''.wav'' \<mapsto> [])))) = 0"
  then show "fst (ensure_wav_audio sys source w) = Inr (mkstemp sys ''.wav'')"
    by (simp add: ensure_wav_audio_other[OF n] Let_def)
qed

lemma example_suffixes: "Path_suffix ''/tmp/tmpab12.wav'' = ''.wav''"
  "lower (Path_suffix ''/data/talk.WAV'') = ''.wav''"
  "lower (Path_suffix ''/data/talk.mp4'') = ''.mp4''"
  by (simp_all add: Path_suffix_def Path_name_def lower.simps lower_char_def)

theorem ensure_wav_audio_path_witness:
  "Path_suffix (mkstemp (example_os 0 []) ''.wav'') = ''.wav''
   \<and> ensure_wav_audio (example_os 0 []) ''/data/talk.WAV'' example_world
       = (Inr ''/data/talk.WAV'', example_world)
   \<and> fst (ensure_wav_audio (example_os 0 []) ''/data/talk.mp4'' example_world)
       = Inr ''/tmp/tmpab12.wav''"
proof -
  have m: "mkstemp (example_os 0 []) ''.wav'' = ''/tmp/tmpab12.wav''"
    by (simp add: example_os_def)
  have h: "Path_suffix (mkstemp (example_os 0 []) ''.wav'') = ''.wav''"
    unfolding m by (rule example_suffixes(1))
  have w: "lower (Path_suffix ''/data/talk.WAV'') = ''.wav''"
    by (rule example_suffixes(2))
  have n: "lower (Path_suffix ''/data/talk.mp4'') \<noteq> ''.wav''"
    unfolding example_suffixes(3) by simp
  have rc: "returncode (fst (subprocess_run (example_os 0 [])
              (ffmpeg_command ''/data/talk.mp4'' (mkstemp (example_os 0 []) ''.wav''))
              ((files example_world)(mkstemp (example_os 0 []) ''.wav'' \<mapsto> [])))) = 0"
    by (simp add: example_os_def)
  from ensure_wav_audio_path [OF h, of "''/data/talk.WAV''" example_world] w
  have a: "ensure_wav_audio (example_os 0 []) ''/data/talk.WAV'' example_world
       = (Inr ''/data/talk.WAV'', example_world)"
    by blast
  from ensure_wav_audio_path [OF h, of "''/data/talk.mp4''" example_world] n rc
  have "fst (ensure_wav_audio (example_os 0 []) ''/data/talk.mp4'' example_world)
       = Inr (mkstemp (example_os 0 []) ''.wav'')"
    by blast
  then have b: "fst (ensure_wav_audio (example_os 0 []) ''/data/talk.mp4'' example_world)
       = Inr ''/tmp/tmpab12.wav''"
    unfolding m .
  from h a b show ?thesis by blast
qed


section \<open>The content fingerprint\<close>

lemma read_chunks_all: "0 < n \<Longrightarrow> read_chunks n unread hasher = hasher @ unread"
proof (induction n unread hasher rule: read_chunks.induct)
  case (1 chunk_size unread hasher)
  show ?case
  proof (cases "take chunk_size unread = []")
    case True
    with 1(2) have "unread = []" by simp
    then show ?thesis by (simp add: read_chunks.simps)
  next
    case False
    with 1 have "read_chunks chunk_size (drop chunk_size unread) (hasher @ take chunk_size unread)
        = (hasher @ take chunk_size unread) @ drop chunk_size unread"
      by simp
    with False show ?thesis
      by (subst read_chunks.simps) (simp add: Let_def)
  qed
qed

text \<open>
  C7. The fingerprint of a readable input is the digest of its bytes, whatever the file
  name; only a path that cannot be opened gets the digest of its file name. The function
  is total: it returns a fingerprint in every case.
\<close>

theorem compute_binary_hash_content:
  "(fs p = Some content \<longrightarrow>
      compute_binary_hash sha256 fs \<lparr>path_or_stream = Path p, filename = f\<rparr> = sha256 content)
   \<and> compute_binary_hash sha256 fs \<lparr>path_or_stream = BytesIO content, filename = f\<rparr> = sha256 content
   \<and> (fs p = None \<longrightarrow>
      compute_binary_hash sha256 fs \<lparr>path_or_stream = Path p, filename = f\<rparr> = sha256 f)"
  by (simp add: compute_binary_hash_def read_chunks_all)

theorem compute_binary_hash_content_witness:
  "example_files ''/data/talk.mp4'' = Some ''abc''
   \<and> compute_binary_hash (\<lambda>b. ''sha256:'' @ b) example_files
        \<lparr>path_or_stream = Path ''/data/talk.mp4'', filename = ''talk.mp4''\<rparr> = ''sha256:abc''
   \<and> compute_binary_hash (\<lambda>b. ''sha256:'' @ b) example_files
        \<lparr>path_or_stream = Path ''/data/talk.mp4'', filename = ''other.mov''\<rparr> = ''sha256:abc''
   \<and> example_files ''/data/gone.mp4'' = None
   \<and> compute_binary_hash (\<lambda>b. ''sha256:'' @ b) example_files
        \<lparr>path_or_stream = Path ''/data/gone.mp4'', filename = ''gone.mp4''\<rparr> = ''sha256:gone.mp4''"
proof -
  have s: "example_files ''/data/talk.mp4'' = Some ''abc''"
    and n: "example_files ''/data/gone.mp4'' = None"
    by (simp_all add: example_files_def)
  note t = compute_binary_hash_content [of example_files _ _ "\<lambda>b. ''sha256:'' @ b"]
  from t [of "''/data/talk.mp4''" "''abc''" "''talk.mp4''"] s
  have a: "compute_binary_hash (\<lambda>b. ''sha256:'' @ b) example_files
        \<lparr>path_or_stream = Path ''/data/talk.mp4'', filename = ''talk.mp4''\<rparr> = ''sha256:abc''"
    by simp
  from t [of "''/data/talk.mp4''" "''abc''" "''other.mov''"] s
  have b: "compute_binary_hash (\<lambda>b. ''sha256:'' @ b) example_files
        \<lparr>path_or_stream = Path ''/data/talk.mp4'', filename = ''other.mov''\<rparr> = ''sha256:abc''"
    by simp
  from t [of "''/data/gone.mp4''" "''abc''" "''gone.mp4''"] n
  have c: "compute_binary_hash (\<lambda>b. ''sha256:'' @ b) example_files
        \<lparr>path_or_stream = Path ''/data/gone.mp4'', filename = ''gone.mp4''\<rparr> = ''sha256:gone.mp4''"
    by simp
  from s n a b c show ?thesis by simp
qed

section \<open>Failure of the conversion\<close>








lemma prepare_wav_artifact_never_no_audio:
  "fst (prepare_wav_artifact sys br w) \<noteq> Inl (NoAudioStreamError m)"
  by (auto simp: prepare_wav_artifact_def Let_def split: prod.splits sum.splits error.splits
      path_or_stream.splits)

lemma prepare_wav_artifact_path:
  "prepare_wav_artifact sys \<lparr>path_or_stream = Path p, filename = f\<rparr> w =
     (case ensure_wav_audio sys p w of
        (Inr q, w') \<Rightarrow> (Inr (Some q), w')
      | (Inl (NoAudioStreamError m), w') \<Rightarrow> (Inr None, w')
      | (Inl e, w') \<Rightarrow> (Inl e, w'))"
  by (simp add: prepare_wav_artifact_def Let_def split: prod.splits sum.splits error.splits)






section \<open>Normalisation of speech-to-text results\<close>

lemma py_or_falsy: "\<not> truthy a \<Longrightarrow> py_or a b = b"
  by (simp add: py_or_def)

lemma bind_Inr: "bind r f = Inr y \<longleftrightarrow> (\<exists>v. r = Inr v \<and> f v = Inr y)"
  by (cases r) (simp_all add: bind_def)

lemma map_until_error_Inr:
  "map_until_error f xs = Inr ys \<Longrightarrow>
   length ys = length xs \<and> (\<forall>i < length xs. f (xs ! i) = Inr (ys ! i))"
proof (induction xs arbitrary: ys)
  case Nil
  then show ?case by simp
next
  case (Cons x xs)
  from Cons.prems obtain y ys' where y: "f x = Inr y"
    and r: "map_until_error f xs = Inr ys'" and ys: "ys = y # ys'"
    by (auto split: sum.splits)
  from Cons.IH[OF r] y ys show ?case
    by (auto simp: nth_Cons split: nat.splits)
qed

lemma parse_word_Inr:
  assumes "parse_word v = Inr wv"
  shows "\<exists>w. v = JObj w
           \<and> value_word_text wv = py_or (py_or (dget w ''text'') (dget w ''word'')) (JStr [])
           \<and> value_word_start_time wv = py_or (dget w ''start'') (dget w ''start_time'')
           \<and> value_word_end_time wv = py_or (dget w ''end'') (dget w ''end_time'')"
  using assms by (cases v) (auto simp: parse_word_def)

lemma parse_segment_Inr:
  assumes "parse_segment v = Inr it"
  shows "\<exists>g ws. v = JObj g
           \<and> iterate (dget_default g ''words'' (JArr [])) = Inr ws
           \<and> map_until_error parse_word ws = Inr (value_words it)
           \<and> value_start_time it = py_or (dget g ''start'') (dget g ''begin_time'')
           \<and> value_end_time it = py_or (dget g ''end'') (dget g ''end_time'')
           \<and> value_speaker_id it = py_or (dget g ''speaker_id'') (dget g ''speaker'')
           \<and> value_speaker it = dget g ''speaker_label''"
  using assms by (cases v) (auto simp: parse_segment_def bind_Inr)

lemma zero_without_alias:
  "map_of kvs k = Some (JNum 0) \<Longrightarrow> map_of kvs k' = None \<Longrightarrow> py_or (dget kvs k) (dget kvs k') = JNull"
  by (simp add: dget_def py_or_def)

lemma empty_without_alias:
  "map_of kvs k = Some (JStr []) \<Longrightarrow> map_of kvs k' = None \<Longrightarrow>
   py_or (py_or (dget kvs k) (dget kvs k')) (JStr []) = JStr []"
  by (simp add: dget_def py_or_def)

lemma parsed_word_aliases:
  assumes "parse_word v = Inr wv"
  shows "\<exists>w. v = JObj w
     \<and> value_word_text wv = py_or (py_or (dget w ''text'') (dget w ''word'')) (JStr [])
     \<and> value_word_start_time wv = py_or (dget w ''start'') (dget w ''start_time'')
     \<and> value_word_end_time wv = py_or (dget w ''end'') (dget w ''end_time'')
     \<and> (\<not> truthy (dget w ''start'') \<longrightarrow> value_word_start_time wv = dget w ''start_time'')
     \<and> (\<not> truthy (dget w ''text'') \<longrightarrow> value_word_text wv = py_or (dget w ''word'') (JStr []))
     \<and> (map_of w ''start'' = Some (JNum 0) \<and> map_of w ''start_time'' = None
          \<longrightarrow> value_word_start_time wv = JNull)
     \<and> (map_of w ''text'' = Some (JStr []) \<and> map_of w ''word'' = None
          \<longrightarrow> value_word_text wv = JStr [])"
proof -
  from parse_word_Inr[OF assms] obtain w where w: "v = JObj w"
    "value_word_text wv = py_or (py_or (dget w ''text'') (dget w ''word'')) (JStr [])"
    "value_word_start_time wv = py_or (dget w ''start'') (dget w ''start_time'')"
    "value_word_end_time wv = py_or (dget w ''end'') (dget w ''end_time'')"
    by blast
  then show ?thesis
    by (auto simp: py_or_falsy zero_without_alias empty_without_alias)
qed

text \<open>
  C10. In the items that \<open>parse_items\<close> returns, one for each segment and in the order of
  the segments, a field and its alias are combined by \<^verbatim>\<open>or\<close>: the start of the item is
  the value of \<^verbatim>\<open>start\<close> when that is truthy and the value of \<^verbatim>\<open>begin_time\<close> otherwise,
  and likewise for the end of an item and for the text, start and end of each word. In
  particular a segment, or a word, whose start is zero and whose alias is absent gets the
  start \<^verbatim>\<open>None\<close>, and a word whose text is empty and whose alias is absent gets the empty
  text.
\<close>

theorem parse_items_aliases_by_truthiness:
  assumes "parse_items (JObj r) = Inr items"
  shows "\<exists>segs.
           iterate (py_or (py_or (dget r ''segments'') (dget r ''sentences'')) (JArr [])) = Inr segs
         \<and> length items = length segs
         \<and> (\<forall>i < length segs. \<exists>g ws.
               segs ! i = JObj g
             \<and> value_start_time (items ! i) = py_or (dget g ''start'') (dget g ''begin_time'')
             \<and> value_end_time (items ! i) = py_or (dget g ''end'') (dget g ''end_time'')
             \<and> (\<not> truthy (dget g ''start'') \<longrightarrow> value_start_time (items ! i) = dget g ''begin_time'')
             \<and> (\<not> truthy (dget g ''end'') \<longrightarrow> value_end_time (items ! i) = dget g ''end_time'')
             \<and> (map_of g ''start'' = Some (JNum 0) \<and> map_of g ''begin_time'' = None
                  \<longrightarrow> value_start_time (items ! i) = JNull)
             \<and> (map_of g ''end'' = Some (JNum 0) \<and> map_of g ''end_time'' = None
                  \<longrightarrow> value_end_time (items ! i) = JNull)
             \<and> iterate (dget_default g ''words'' (JArr [])) = Inr ws
             \<and> length (value_words (items ! i)) = length ws
             \<and> (\<forall>j < length ws. \<exists>w.
                   ws ! j = JObj w
                 \<and> value_word_text (value_words (items ! i) ! j)
                     = py_or (py_or (dget w ''text'') (dget w ''word'')) (JStr [])
                 \<and> value_word_start_time (value_words (items ! i) ! j)
                     = py_or (dget w ''start'') (dget w ''start_time'')
                 \<and> value_word_end_time (value_words (items ! i) ! j)
                     = py_or (dget w ''end'') (dget w ''end_time'')
                 \<and> (\<not> truthy (dget w ''start'') \<longrightarrow>
                       value_word_start_time (value_words (items ! i) ! j) = dget w ''start_time'')
                 \<and> (\<not> truthy (dget w ''text'') \<longrightarrow>
                       value_word_text (value_words (items ! i) ! j)
                         = py_or (dget w ''word'') (JStr []))
                 \<and> (map_of w ''start'' = Some (JNum 0) \<and> map_of w ''start_time'' = None
                      \<longrightarrow> value_word_start_time (value_words (items ! i) ! j) = JNull)
                 \<and> (map_of w ''text'' = Some (JStr []) \<and> map_of w ''word'' = None
                      \<longrightarrow> value_word_text (value_words (items ! i) ! j) = JStr [])))"
proof -
  from assms obtain segs where
    it: "iterate (py_or (py_or (dget r ''segments'') (dget r ''sentences'')) (JArr [])) = Inr segs"
    and m: "map_until_error parse_segment segs = Inr items"
    by (auto simp: parse_items_def bind_Inr)
  from map_until_error_Inr[OF m] have len: "length items = length segs"
    and each: "\<forall>i < length segs. parse_segment (segs ! i) = Inr (items ! i)"
    by simp_all
  have seg: "\<exists>g ws.
               segs ! i = JObj g
             \<and> value_start_time (items ! i) = py_or (dget g ''start'') (dget g ''begin_time'')
             \<and> value_end_time (items ! i) = py_or (dget g ''end'') (dget g ''end_time'')
             \<and> (\<not> truthy (dget g ''start'') \<longrightarrow> value_start_time (items ! i) = dget g ''begin_time'')
             \<and> (\<not> truthy (dget g ''end'') \<longrightarrow> value_end_time (items ! i) = dget g ''end_time'')
             \<and> (map_of g ''start'' = Some (JNum 0) \<and> map_of g ''begin_time'' = None
                  \<longrightarrow> value_start_time (items ! i) = JNull)
             \<and> (map_of g ''end'' = Some (JNum 0) \<and> map_of g ''end_time'' = None
                  \<longrightarrow> value_end_time (items ! i) = JNull)
             \<and> iterate (dget_default g ''words'' (JArr [])) = Inr ws
             \<and> length (value_words (items ! i)) = length ws
             \<and> (\<forall>j < length ws. \<exists>w.
                   ws ! j = JObj w
                 \<and> value_word_text (value_words (items ! i) ! j)
                     = py_or (py_or (dget w ''text'') (dget w ''word'')) (JStr [])
                 \<and> value_word_start_time (value_words (items ! i) ! j)
                     = py_or (dget w ''start'') (dget w ''start_time'')
                 \<and> value_word_end_time (value_words (items ! i) ! j)
                     = py_or (dget w ''end'') (dget w ''end_time'')
                 \<and> (\<not> truthy (dget w ''start'') \<longrightarrow>
                       value_word_start_time (value_words (items ! i) ! j) = dget w ''start_time'')
                 \<and> (\<not> truthy (dget w ''text'') \<longrightarrow>
                       value_word_text (value_words (items ! i) ! j)
                         = py_or (dget w ''word'') (JStr []))
                 \<and> (map_of w ''start'' = Some (JNum 0) \<and> map_of w ''start_time'' = None
                      \<longrightarrow> value_word_start_time (value_words (items ! i) ! j) = JNull)
                 \<and> (map_of w ''text'' = Some (JStr []) \<and> map_of w ''word'' = None
                      \<longrightarrow> value_word_text (value_words (items ! i) ! j) = JStr []))"
    if i: "i < length segs" for i
  proof -
    from each i have p: "parse_segment (segs ! i) = Inr (items ! i)" by simp
    from parse_segment_Inr[OF p] obtain g ws where g: "segs ! i = JObj g"
      and ws: "iterate (dget_default g ''words'' (JArr [])) = Inr ws"
      and mw: "map_until_error parse_word ws = Inr (value_words (items ! i))"
      and st: "value_start_time (items ! i) = py_or (dget g ''start'') (dget g ''begin_time'')"
      and en: "value_end_time (items ! i) = py_or (dget g ''end'') (dget g ''end_time'')"
      by blast
    from map_until_error_Inr[OF mw] have wl: "length (value_words (items ! i)) = length ws"
      and we: "\<forall>j < length ws. parse_word (ws ! j) = Inr (value_words (items ! i) ! j)"
      by simp_all
    have words: "\<forall>j < length ws. \<exists>w.
                   ws ! j = JObj w
                 \<and> value_word_text (value_words (items ! i) ! j)
                     = py_or (py_or (dget w ''text'') (dget w ''word'')) (JStr [])
                 \<and> value_word_start_time (value_words (items ! i) ! j)
                     = py_or (dget w ''start'') (dget w ''start_time'')
                 \<and> value_word_end_time (value_words (items ! i) ! j)
                     = py_or (dget w ''end'') (dget w ''end_time'')
                 \<and> (\<not> truthy (dget w ''start'') \<longrightarrow>
                       value_word_start_time (value_words (items ! i) ! j) = dget w ''start_time'')
                 \<and> (\<not> truthy (dget w ''text'') \<longrightarrow>
                       value_word_text (value_words (items ! i) ! j)
                         = py_or (dget w ''word'') (JStr []))
                 \<and> (map_of w ''start'' = Some (JNum 0) \<and> map_of w ''start_time'' = None
                      \<longrightarrow> value_word_start_time (value_words (items ! i) ! j) = JNull)
                 \<and> (map_of w ''text'' = Some (JStr []) \<and> map_of w ''word'' = None
                      \<longrightarrow> value_word_text (value_words (items ! i) ! j) = JStr [])"
      using we parsed_word_aliases by blast
    have al: "\<not> truthy (dget g ''start'') \<longrightarrow> value_start_time (items ! i) = dget g ''begin_time''"
      "\<not> truthy (dget g ''end'') \<longrightarrow> value_end_time (items ! i) = dget g ''end_time''"
      "map_of g ''start'' = Some (JNum 0) \<and> map_of g ''begin_time'' = None
         \<longrightarrow> value_start_time (items ! i) = JNull"
      "map_of g ''end'' = Some (JNum 0) \<and> map_of g ''end_time'' = None
         \<longrightarrow> value_end_time (items ! i) = JNull"
      using st en by (auto simp: py_or_falsy zero_without_alias)
    from g st en al ws wl words show ?thesis by blast
  qed
  from it len seg show ?thesis by blast
qed


text \<open>
  The parse succeeds when the segments are objects whose words are objects and whose text
  is a string or falsy.
\<close>

lemma map_until_error_succeeds:
  "(\<forall>x \<in> set xs. \<exists>y. f x = Inr y) \<Longrightarrow> \<exists>ys. map_until_error f xs = Inr ys"
  by (induction xs) auto

lemma parse_items_succeeds:
  assumes "iterate (py_or (py_or (dget r ''segments'') (dget r ''sentences'')) (JArr [])) = Inr segs"
    and "\<forall>v \<in> set segs. \<exists>g ws s. v = JObj g
           \<and> iterate (dget_default g ''words'' (JArr [])) = Inr ws
           \<and> (\<forall>x \<in> set ws. \<exists>w. x = JObj w)
           \<and> py_or (py_or (dget g ''text'') (dget g ''sentence'')) (JStr []) = JStr s"
  shows "\<exists>items. parse_items (JObj r) = Inr items"
proof -
  have "\<exists>y. parse_segment v = Inr y" if "v \<in> set segs" for v
  proof -
    from assms(2) that obtain g ws s where g: "v = JObj g"
      and ws: "iterate (dget_default g ''words'' (JArr [])) = Inr ws"
      and obj: "\<forall>x \<in> set ws. \<exists>w. x = JObj w"
      and t: "py_or (py_or (dget g ''text'') (dget g ''sentence'')) (JStr []) = JStr s"
      by blast
    from obj have "\<forall>x \<in> set ws. \<exists>y. parse_word x = Inr y"
      by (auto simp: parse_word_def)
    from map_until_error_succeeds[OF this] obtain pw where "map_until_error parse_word ws = Inr pw"
      by blast
    with g ws t show ?thesis by (simp add: parse_segment_def bind_def)
  qed
  then have "\<forall>v \<in> set segs. \<exists>y. parse_segment v = Inr y" by blast
  from map_until_error_succeeds[OF this] assms(1) show ?thesis
    by (simp add: parse_items_def bind_def)
qed

lemma strip_hello: "strip ''hello world'' = ''hello world''"
  by (simp add: strip_def lstrip_def rstrip_def drop_spaces.simps leading_space_def
      is_space_def WIDE_SPACES_def)

lemma sample_items_parse:
  "parse_items (JObj [(''segments'', JArr [JObj sample_segment])]) =
     Inr [\<lparr>value_text = ''hello world'', value_start_time = JNull,
           value_end_time = JNum (6 / 5), value_speaker_id = JNull, value_speaker = JNull,
           value_words = [\<lparr>value_word_text = JStr ''hello'', value_word_start_time = JNull,
                           value_word_end_time = JNum (3 / 5)\<rparr>]\<rparr>]"
  by (simp add: parse_items_def parse_segment_def parse_word_def bind_def dget_def
      dget_default_def py_or_def sample_segment_def sample_word_def strip_hello)

theorem parse_items_aliases_by_truthiness_witness:
  "parse_items (JObj [(''segments'', JArr [JObj sample_segment])]) =
     Inr [\<lparr>value_text = ''hello world'', value_start_time = JNull,
           value_end_time = JNum (6 / 5), value_speaker_id = JNull, value_speaker = JNull,
           value_words = [\<lparr>value_word_text = JStr ''hello'', value_word_start_time = JNull,
                           value_word_end_time = JNum (3 / 5)\<rparr>]\<rparr>]
   \<and> map_of sample_segment ''start'' = Some (JNum 0)
   \<and> map_of sample_segment ''begin_time'' = None
   \<and> map_of sample_word ''start'' = Some (JNum 0)
   \<and> map_of sample_word ''start_time'' = None"
proof -
  have m: "map_of sample_segment ''start'' = Some (JNum 0)"
    "map_of sample_segment ''begin_time'' = None"
    "map_of sample_word ''start'' = Some (JNum 0)"
    "map_of sample_word ''start_time'' = None"
    by (simp_all add: sample_segment_def sample_word_def)
  from parse_items_aliases_by_truthiness [OF sample_items_parse]
  have "\<exists>segs. iterate (py_or (py_or (dget [(''segments'', JArr [JObj sample_segment])] ''segments'')
            (dget [(''segments'', JArr [JObj sample_segment])] ''sentences'')) (JArr [])) = Inr segs
          \<and> length [\<lparr>value_text = ''hello world'', value_start_time = JNull,
           value_end_time = JNum (6 / 5), value_speaker_id = JNull, value_speaker = JNull,
           value_words = [\<lparr>value_word_text = JStr ''hello'', value_word_start_time = JNull,
                           value_word_end_time = JNum (3 / 5)\<rparr>]\<rparr>] = length segs"
    by blast
  with sample_items_parse m show ?thesis by blast
qed

text \<open>A speaker that is a string is stored as it is.\<close>

lemma parse_segment_string_speaker:
  "parse_segment (JObj [(''text'', JStr ''hi''), (''start'', JNum 0), (''speaker'', JStr ''spk0'')])
     = Inr \<lparr>value_text = ''hi'', value_start_time = JNull, value_end_time = JNull,
            value_speaker_id = JStr ''spk0'', value_speaker = JNull, value_words = []\<rparr>"
  by (simp add: parse_segment_def bind_def dget_def dget_default_def py_or_def strip_def
      lstrip_def rstrip_def drop_spaces.simps leading_space_def is_space_def WIDE_SPACES_def)

text \<open>
  The item of the sample segment, with the types of the annotations: it has no start
  time.
\<close>

lemma sample_item_typed:
  "typed_item \<lparr>value_text = ''hello world'', value_start_time = JNull,
           value_end_time = JNum (6 / 5), value_speaker_id = JNull, value_speaker = JNull,
           value_words = [\<lparr>value_word_text = JStr ''hello'', value_word_start_time = JNull,
                           value_word_end_time = JNum (3 / 5)\<rparr>]\<rparr>
     = Some \<lparr>item_text = ''hello world'', start_time = None, end_time = Some (6 / 5),
             speaker_id = None, speaker = None,
             words = [\<lparr>word_text = ''hello'', word_start_time = None,
                       word_end_time = Some (3 / 5)\<rparr>]\<rparr>"
  by (simp add: typed_item_def typed_word_def)

text \<open>
  The direct request answered at once with the sample response.
\<close>

lemma sample_transcribe_direct:
  assumes "post 1 = Responded \<lparr>status_code = 200, response_text = [],
      response_json = Some (JObj [(''code'', JStr ''Success''),
         (''data'', JObj [(''segments'', JArr [JObj sample_segment])])])\<rparr>"
  shows "transcribe_direct post 3 n =
     (Inr [\<lparr>value_text = ''hello world'', value_start_time = JNull,
           value_end_time = JNum (6 / 5), value_speaker_id = JNull, value_speaker = JNull,
           value_words = [\<lparr>value_word_text = JStr ''hello'', value_word_start_time = JNull,
                           value_word_end_time = JNum (3 / 5)\<rparr>]\<rparr>],
      n\<lparr>requests := requests n + 1\<rparr>)"
proof -
  have u: "[1..3] = [1, 2, 3::int]" by (simp add: upto.simps)
  have d: "direct_attempts post 3 [1..3] None n
      = (Inr (Some \<lparr>status_code = 200, response_text = [],
      response_json = Some (JObj [(''code'', JStr ''Success''),
         (''data'', JObj [(''segments'', JArr [JObj sample_segment])])])\<rparr>),
         n\<lparr>requests := requests n + 1\<rparr>)"
    unfolding u by (simp add: assms Let_def)
  have a: "py_or (py_or (dget [(''code'', JStr ''Success''),
         (''data'', JObj [(''segments'', JArr [JObj sample_segment])])] ''data'')
       (dget [(''code'', JStr ''Success''),
         (''data'', JObj [(''segments'', JArr [JObj sample_segment])])] ''output'')) (JObj [])
      = JObj [(''segments'', JArr [JObj sample_segment])]"
    by (simp add: dget_def py_or_def)
  have c: "dget [(''code'', JStr ''Success''),
         (''data'', JObj [(''segments'', JArr [JObj sample_segment])])] ''code'' = JStr ''Success''"
    by (simp add: dget_def)
  show ?thesis
    unfolding transcribe_direct_def d
    by (simp add: a c sample_items_parse hashable_def Let_def)
qed


section \<open>The direct transcription request\<close>

text \<open>
  C8. With a retry count of zero the loop makes no attempt, \<^verbatim>\<open>response\<close> is never bound,
  and the status check after the loop raises \<^verbatim>\<open>UnboundLocalError\<close>, not
  \<^verbatim>\<open>AsrServiceError\<close>.
\<close>

theorem transcribe_direct_zero_retries:
  "transcribe_direct post 0 n = (Inl UnboundLocalError, n)"
  by (simp add: transcribe_direct_def)

text \<open>
  The loop of the vision client, in the same situation, raises its service error.
\<close>

lemma post_with_retry_zero_retries:
  "post_with_retry post 0 = Inl (VisionServiceError ''Aliyun vision request exhausted retries'')"
  by (simp add: post_with_retry_def)

text \<open>
  What holds for every retry count: the loop sends at most that many requests.
\<close>

lemma direct_attempts_requests:
  "requests (snd (direct_attempts post retries attempts resp n)) \<le> requests n + length attempts"
proof (induction attempts arbitrary: resp n)
  case Nil
  then show ?case by simp
next
  case (Cons a as)
  have "requests (snd (direct_attempts post retries as r' (sleep s (n\<lparr>requests := requests n + 1\<rparr>))))
      \<le> requests n + 1 + length as" for r' s
    using Cons[of r' "sleep s (n\<lparr>requests := requests n + 1\<rparr>)"] by (simp add: sleep_def)
  then show ?case
    by (auto simp: Let_def split: http_result.splits)
qed

lemma transcribe_direct_requests:
  "requests (snd (transcribe_direct post retries n)) \<le> requests n + nat retries"
proof -
  have "snd (transcribe_direct post retries n)
      = snd (direct_attempts post retries [1..retries] None n)"
    by (auto simp: transcribe_direct_def Let_def split: prod.splits sum.splits option.splits
        json.splits)
  moreover have "length [1..retries] = nat retries" by simp
  ultimately show ?thesis using direct_attempts_requests[of post retries "[1..retries]" None n]
    by simp
qed

lemma direct_attempts_bound:
  "a \<le> retries \<Longrightarrow> fst (direct_attempts post retries [a..retries] resp n) \<noteq> Inr None"
proof (induction "nat (retries - a)" arbitrary: a resp n)
  case 0
  then have "a = retries" by simp
  then show ?case
    by (subst upto.simps) (auto simp: Let_def split: http_result.splits)
next
  case (Suc k)
  then have lt: "a < retries" and k: "k = nat (retries - (a + 1))" and le: "a + 1 \<le> retries"
    by simp_all
  have u: "[a..retries] = a # [a + 1..retries]"
    using lt by (simp add: upto.simps)
  show ?case
    unfolding u using Suc(1)[OF k le]
    by (auto simp: Let_def split: http_result.splits)
qed

lemma bind_Inl: "bind r f = Inl e \<longleftrightarrow> r = Inl e \<or> (\<exists>v. r = Inr v \<and> f v = Inl e)"
  by (cases r) (simp_all add: bind_def)

lemma map_until_error_Inl:
  "map_until_error f xs = Inl e \<Longrightarrow> \<exists>x \<in> set xs. f x = Inl e"
  by (induction xs) (auto split: sum.splits)

lemma iterate_error: "iterate v = Inl e \<Longrightarrow> e = TypeError"
  by (cases v) auto

lemma parse_word_error: "parse_word v = Inl e \<Longrightarrow> e = AttributeError"
  by (auto simp: parse_word_def split: json.splits)

lemma parse_segment_error:
  "parse_segment v = Inl e \<Longrightarrow> e \<in> {TypeError, AttributeError}"
proof (cases v)
  case (JObj g)
  assume "parse_segment v = Inl e"
  with JObj show ?thesis
    unfolding parse_segment_def
    by (auto simp: bind_Inl split: json.splits
        dest!: iterate_error map_until_error_Inl parse_word_error)
qed (auto simp: parse_segment_def)

lemma parse_items_error:
  "parse_items v = Inl e \<Longrightarrow> e \<in> {TypeError, AttributeError}"
proof (cases v)
  case (JObj r)
  assume "parse_items v = Inl e"
  with JObj show ?thesis
    unfolding parse_items_def
    by (auto simp: bind_Inl dest!: iterate_error map_until_error_Inl parse_segment_error)
qed (auto simp: parse_items_def)

lemma direct_attempts_error:
  "fst (direct_attempts post retries attempts resp n) = Inl e \<Longrightarrow> \<exists>m. e = AsrServiceError m"
proof (induction attempts arbitrary: resp n)
  case Nil
  then show ?case by simp
next
  case (Cons a as)
  then show ?case
    by (auto simp: Let_def split: http_result.splits if_splits)
qed

text \<open>
  With at least one attempt configured, the variable \<^verbatim>\<open>response\<close> is bound after the loop,
  and an error is an \<^verbatim>\<open>AsrServiceError\<close>, or the \<^verbatim>\<open>AttributeError\<close> or \<^verbatim>\<open>TypeError\<close> of a
  decoded body that has not the shape of a result.
\<close>

lemma transcribe_direct_errors:
  assumes r: "1 \<le> retries" and e: "fst (transcribe_direct post retries n) = Inl e"
  shows "(\<exists>m. e = AsrServiceError m) \<or> e \<in> {TypeError, AttributeError}"
proof -
  obtain x n' where d: "direct_attempts post retries [1..retries] None n = (x, n')"
    by (cases "direct_attempts post retries [1..retries] None n")
  with direct_attempts_bound[OF r, of post None n] have x: "x \<noteq> Inr None" by simp
  from d direct_attempts_error[of post retries "[1..retries]" None n]
  have xe: "x = Inl e' \<Longrightarrow> \<exists>m. e' = AsrServiceError m" for e' by simp
  show ?thesis
    using x xe e
    by (auto simp: transcribe_direct_def d Let_def
        split: sum.splits option.splits json.splits if_splits dest!: parse_items_error)
qed

text \<open>
  One turn of the loop: an answer below 500 ends it at once; an answer from 500 up, or a
  network error, on an attempt before the last one is followed by a delay of
  \<open>2 ^ attempt\<close> seconds and the next attempt; a network error on the last attempt raises
  \<^verbatim>\<open>AsrServiceError\<close>.
\<close>

lemma direct_attempts_answered:
  "post a = Responded r \<Longrightarrow> status_code r < 500 \<Longrightarrow>
   direct_attempts post retries (a # rest) resp n
     = (Inr (Some r), n\<lparr>requests := requests n + 1\<rparr>)"
  by (simp add: Let_def)

lemma direct_attempts_server_error:
  "post a = Responded r \<Longrightarrow> 500 \<le> status_code r \<Longrightarrow> a < retries \<Longrightarrow>
   direct_attempts post retries (a # rest) resp n
     = direct_attempts post retries rest (Some r)
         (sleep (2 ^ nat a) (n\<lparr>requests := requests n + 1\<rparr>))"
  by (simp add: Let_def)

lemma direct_attempts_network_error:
  "post a = RequestException msg \<Longrightarrow> a < retries \<Longrightarrow>
   direct_attempts post retries (a # rest) resp n
     = direct_attempts post retries rest resp
         (sleep (2 ^ nat a) (n\<lparr>requests := requests n + 1\<rparr>))"
  by (simp add: Let_def)

lemma direct_attempts_last_network_error:
  "post a = RequestException msg \<Longrightarrow> retries \<le> a \<Longrightarrow>
   direct_attempts post retries (a # rest) resp n
     = (Inl (AsrServiceError (''Network error during transcription: '' @ msg)),
        n\<lparr>requests := requests n + 1\<rparr>)"
  by (simp add: Let_def)

section \<open>Captioning of keyframes\<close>

lemma describe_frames_from_successes:
  assumes "\<forall>k < length frames. \<forall>e. describe (idx + int k) (fst (frames ! k)) = Inl e
             \<longrightarrow> (\<exists>m. e = VisionServiceError m)"
  shows "describe_frames_from fl describe idx frames =
           Inr (concat (map (\<lambda>(k, (p, ts)).
                               case describe (idx + int k) p of
                                 Inr d \<Rightarrow> [keyframe_item fl d ts (idx + int k)]
                               | Inl e \<Rightarrow> [])
                            (enumerate 0 frames)))"
  using assms
proof (induction frames arbitrary: idx)
  case Nil
  then show ?case by simp
next
  case (Cons f rest)
  obtain p ts where f: "f = (p, ts)" by (cases f)
  have rest: "\<forall>k < length rest. \<forall>e. describe (idx + 1 + int k) (fst (rest ! k)) = Inl e
             \<longrightarrow> (\<exists>m. e = VisionServiceError m)"
  proof (intro allI impI)
    fix k e
    assume k: "k < length rest" and e: "describe (idx + 1 + int k) (fst (rest ! k)) = Inl e"
    from k have "Suc k < length (f # rest)" by simp
    moreover have "idx + int (Suc k) = idx + 1 + int k" by simp
    with e have "describe (idx + int (Suc k)) (fst ((f # rest) ! Suc k)) = Inl e"
      by (simp only: nth_Cons_Suc)
    ultimately show "\<exists>m. e = VisionServiceError m" using Cons.prems by blast
  qed
  note ih = Cons.IH[OF rest]
  have shift: "map (\<lambda>(k, (p, ts)). case describe (idx + int k) p of
                                 Inr d \<Rightarrow> [keyframe_item fl d ts (idx + int k)]
                               | Inl e \<Rightarrow> []) (enumerate (Suc 0) rest)
      = map (\<lambda>(k, (p, ts)). case describe (idx + 1 + int k) p of
                                 Inr d \<Rightarrow> [keyframe_item fl d ts (idx + 1 + int k)]
                               | Inl e \<Rightarrow> []) (enumerate 0 rest)"
  proof -
    have "idx + int (Suc k) = idx + 1 + int k" for k by simp
    then show ?thesis
      by (simp only: enumerate_Suc_eq map_map o_def split_def fst_apfst snd_apfst)
  qed
  from Cons.prems have head: "\<forall>e. describe idx p = Inl e \<longrightarrow> (\<exists>m. e = VisionServiceError m)"
    by (auto simp: f dest: spec[of _ 0])
  show ?case
  proof (cases "describe idx p")
    case (Inl e)
    with head obtain m where "e = VisionServiceError m" by blast
    with Inl ih shift show ?thesis by (simp add: f)
  next
    case (Inr d)
    with ih shift show ?thesis by (simp add: f)
  qed
qed

text \<open>
  An error of a frame that is not a \<^verbatim>\<open>VisionServiceError\<close> leaves the loop.
\<close>

lemma describe_frames_from_raises:
  "describe idx p = Inl e \<Longrightarrow> (\<forall>m. e \<noteq> VisionServiceError m) \<Longrightarrow>
   describe_frames_from fl describe idx ((p, ts) # rest) = Inl e"
  by (cases e) simp_all

text \<open>
  C9, as the code has it. When every failure of a frame is a \<^verbatim>\<open>VisionServiceError\<close>,
  \<open>describe_frames\<close> returns, in the order of the frames, one item for each frame that
  is captioned; a frame that fails is skipped. The item of the frame with index \<open>i\<close>
  (counted from one over all frames), timestamp \<open>ts\<close> and caption \<open>d\<close> has the text
  \<^verbatim>\<open>[[KEYFRAME_START]]frame=i;time=ts s\<close>, a newline, \<open>d\<close>, a newline and
  \<^verbatim>\<open>[[KEYFRAME_END]]\<close>; its start time is the integer part of \<open>ts * 1000\<close> and its end
  time is one more.
\<close>

theorem describe_frames_skips_service_errors:
  assumes "\<forall>k < length frames. \<forall>e.
             describe_single_frame fs (post (1 + int k)) retries (fst (frames ! k)) = Inl e
             \<longrightarrow> (\<exists>m. e = VisionServiceError m)"
  shows "describe_frames fl fs post retries frames =
           Inr (concat (map (\<lambda>(k, (p, ts)).
                               case describe_single_frame fs (post (1 + int k)) retries p of
                                 Inr d \<Rightarrow> [keyframe_item fl d ts (1 + int k)]
                               | Inl e \<Rightarrow> [])
                            (enumerate 0 frames)))
         \<and> (\<forall>d ts i.
               item_text (keyframe_item fl d ts i)
                 = KEYFRAME_PREFIX @ ''frame='' @ str_int i @ '';time='' @ format_3f fl ts @ ''s''
                   @ [CHR 0x0A] @ d @ [CHR 0x0A] @ KEYFRAME_SUFFIX
               \<and> start_time (keyframe_item fl d ts i)
                   = Some (of_int (py_int (times_1000 fl ts)))
               \<and> end_time (keyframe_item fl d ts i)
                   = Some (of_int (py_int (times_1000 fl ts)) + 1))"
proof
  show "describe_frames fl fs post retries frames =
           Inr (concat (map (\<lambda>(k, (p, ts)).
                               case describe_single_frame fs (post (1 + int k)) retries p of
                                 Inr d \<Rightarrow> [keyframe_item fl d ts (1 + int k)]
                               | Inl e \<Rightarrow> [])
                            (enumerate 0 frames)))"
    unfolding describe_frames_def
    using describe_frames_from_successes
      [of frames "\<lambda>idx frame_path. describe_single_frame fs (post idx) retries frame_path" 1 fl]
      assms
    by simp
  show "\<forall>d ts i.
               item_text (keyframe_item fl d ts i)
                 = KEYFRAME_PREFIX @ ''frame='' @ str_int i @ '';time='' @ format_3f fl ts @ ''s''
                   @ [CHR 0x0A] @ d @ [CHR 0x0A] @ KEYFRAME_SUFFIX
               \<and> start_time (keyframe_item fl d ts i)
                   = Some (of_int (py_int (times_1000 fl ts)))
               \<and> end_time (keyframe_item fl d ts i)
                   = Some (of_int (py_int (times_1000 fl ts)) + 1)"
    by (simp add: keyframe_item_def wrap_keyframe_text_def Let_def)
qed


lemma strip_a_cat: "strip ''a cat'' = ''a cat''"
  by (simp add: strip_def lstrip_def rstrip_def drop_spaces.simps leading_space_def
      is_space_def WIDE_SPACES_def)

lemma example_caption_text: "extract_text example_caption = Inr ''a cat''"
  by (simp add: extract_text_def example_caption_def dget_def or_else_def choice_text_def
      message_text_def block_text_def nonblank_def strip_a_cat)

lemma three_attempts: "[1..3] = [1, 2, 3::int]"
  by (simp add: upto.simps)

lemma example_frame_1:
  "describe_single_frame example_frame_files (example_vision_post 1) 3 ''/tmp/k/frame_0001.jpg''
     = Inl (VisionServiceError ''Aliyun vision request failed with status 400: bad request'')"
  by (simp add: describe_single_frame_def example_frame_files_def post_with_retry_def
      example_vision_post_def bind_def three_attempts str_int_def str_nat.simps
      digit_char_def)

lemma example_frame_2:
  "describe_single_frame example_frame_files (example_vision_post 2) 3 ''/tmp/k/frame_0002.jpg''
     = Inr ''a cat''"
  by (simp add: describe_single_frame_def example_frame_files_def post_with_retry_def
      example_vision_post_def bind_def example_caption_text strip_a_cat three_attempts)

lemma example_keyframe_item:
  "keyframe_item example_float_ops ''a cat'' (7 / 2) 2
     = \<lparr>item_text = ''[[KEYFRAME_START]]frame=2;time=3.500s'' @ [CHR 0x0A] @ ''a cat''
                      @ [CHR 0x0A] @ ''[[KEYFRAME_END]]'',
        start_time = Some 3500, end_time = Some 3501,
        speaker_id = None, speaker = None, words = []\<rparr>"
  by (simp add: keyframe_item_def wrap_keyframe_text_def example_float_ops_def py_int_def
      str_int_def str_nat.simps digit_char_def KEYFRAME_PREFIX_def KEYFRAME_SUFFIX_def)

theorem describe_frames_skips_service_errors_witness:
  "describe_single_frame example_frame_files (example_vision_post 1) 3 (fst (example_frames ! 0))
     = Inl (VisionServiceError ''Aliyun vision request failed with status 400: bad request'')
   \<and> describe_single_frame example_frame_files (example_vision_post 2) 3 (fst (example_frames ! 1))
     = Inr ''a cat''
   \<and> describe_frames example_float_ops example_frame_files example_vision_post 3 example_frames
     = Inr [\<lparr>item_text = ''[[KEYFRAME_START]]frame=2;time=3.500s'' @ [CHR 0x0A] @ ''a cat''
                          @ [CHR 0x0A] @ ''[[KEYFRAME_END]]'',
            start_time = Some 3500, end_time = Some 3501,
            speaker_id = None, speaker = None, words = []\<rparr>]"
proof -
  have f: "fst (example_frames ! 0) = ''/tmp/k/frame_0001.jpg''"
    "fst (example_frames ! 1) = ''/tmp/k/frame_0002.jpg''"
    by (simp_all add: example_frames_def)
  have h: "\<forall>k < length example_frames. \<forall>e.
      describe_single_frame example_frame_files (example_vision_post (1 + int k)) 3
        (fst (example_frames ! k)) = Inl e \<longrightarrow> (\<exists>m. e = VisionServiceError m)"
  proof (intro allI impI)
    fix k e
    assume k: "k < length example_frames"
      and e: "describe_single_frame example_frame_files (example_vision_post (1 + int k)) 3
        (fst (example_frames ! k)) = Inl e"
    from k have "k = 0 \<or> k = 1" by (auto simp: example_frames_def)
    then show "\<exists>m. e = VisionServiceError m"
    proof
      assume "k = 0"
      with e f(1) example_frame_1 show ?thesis by auto
    next
      assume "k = 1"
      with e f(2) example_frame_2 show ?thesis by auto
    qed
  qed
  have en: "enumerate 0 example_frames
      = [(0, ''/tmp/k/frame_0001.jpg'', 0), (1, ''/tmp/k/frame_0002.jpg'', 7 / 2)]"
    by (simp add: example_frames_def enumerate_eq_zip upt_rec)
  from describe_frames_skips_service_errors [OF h, of example_float_ops]
  have "describe_frames example_float_ops example_frame_files example_vision_post 3 example_frames
     = Inr [keyframe_item example_float_ops ''a cat'' (7 / 2) 2]"
    by (simp add: en example_frame_1 example_frame_2)
  with f example_frame_1 example_frame_2 show ?thesis
    by (simp add: example_keyframe_item)
qed

text \<open>
  C9, as the specification words it, fails: a failure that is not a
  \<^verbatim>\<open>VisionServiceError\<close> is raised to the caller and ends the batch. With the file of
  the first frame missing, \<open>describe_frames\<close> raises \<^verbatim>\<open>FileNotFoundError\<close> although the
  second frame can be captioned; with a response body that is a JSON array it raises
  \<^verbatim>\<open>AttributeError\<close>.
\<close>

theorem describe_frames_raises_counterexample:
  "describe_frames example_float_ops
       (map_of [(''/tmp/k/frame_0002.jpg'', ''jpg2'')]) example_vision_post 3 example_frames
     = Inl (FileNotFoundError ''/tmp/k/frame_0001.jpg'')
   \<and> describe_single_frame (map_of [(''/tmp/k/frame_0002.jpg'', ''jpg2'')])
         (example_vision_post 2) 3 ''/tmp/k/frame_0002.jpg'' = Inr ''a cat''
   \<and> describe_frames example_float_ops example_frame_files
         (\<lambda>idx attempt. Responded \<lparr>status_code = 200, response_text = ''[]'',
                                     response_json = Some (JArr [])\<rparr>) 3 example_frames
     = Inl AttributeError"
proof (intro conjI)
  show "describe_frames example_float_ops
       (map_of [(''/tmp/k/frame_0002.jpg'', ''jpg2'')]) example_vision_post 3 example_frames
     = Inl (FileNotFoundError ''/tmp/k/frame_0001.jpg'')"
    by (simp add: describe_frames_def describe_single_frame_def example_frames_def)
  show "describe_single_frame (map_of [(''/tmp/k/frame_0002.jpg'', ''jpg2'')])
         (example_vision_post 2) 3 ''/tmp/k/frame_0002.jpg'' = Inr ''a cat''"
    by (simp add: describe_single_frame_def post_with_retry_def example_vision_post_def
        bind_def example_caption_text strip_a_cat three_attempts)
  have "extract_text (JArr []) = Inl AttributeError"
    by (simp add: extract_text_def)
  then show "describe_frames example_float_ops example_frame_files
         (\<lambda>idx attempt. Responded \<lparr>status_code = 200, response_text = ''[]'',
                                     response_json = Some (JArr [])\<rparr>) 3 example_frames
     = Inl AttributeError"
    by (simp add: describe_frames_def describe_single_frame_def example_frames_def
        example_frame_files_def post_with_retry_def bind_def three_attempts)
qed

section \<open>Further facts\<close>

text \<open>
  The keyframe extractor ends with the downsampling step: when a pass yields frames, the
  result is the downsampled pairing of the frames with the timestamps.
\<close>

lemma zip_take_min:
  "zip (take (min (length xs) (length ys)) xs) (take (min (length xs) (length ys)) ys) = zip xs ys"
  by (simp add: take_zip[symmetric])

lemma extract_keyframes_downsamples:
  assumes "scene_pass = Inr (frames, timestamps)" "frames \<noteq> []"
  shows "extract_keyframes_with_timestamps source True scene_pass uniform_pass max_frames
           = downsample (zip frames timestamps) max_frames"
  using assms by (simp add: extract_keyframes_with_timestamps_def Let_def zip_take_min)

text \<open>
  A default vision client without an API key cannot be constructed, and the pipeline is
  then without a vision provider.
\<close>

lemma vision_client_without_key:
  "init_default_vision_provider (AliyunVisionClient None) = None"
  by (simp add: init_default_vision_provider_def AliyunVisionClient_def)

text \<open>
  An empty conversation and no summary give a document without text lines.
\<close>

lemma build_docling_document_empty:
  "build_docling_document f m h [] None
     = Inr \<lparr>doc_name = f,
            doc_origin = \<lparr>origin_filename = f, origin_mimetype = m, origin_binary_hash = h\<rparr>,
            doc_texts = []\<rparr>"
  by (simp add: build_docling_document_def)

section \<open>The visual fallback\<close>

lemma ensure_wav_audio_notices:
  "ensure_wav_audio sys source w = (r, w') \<Longrightarrow> notices w' = notices w"
  by (auto simp: ensure_wav_audio_def Let_def unlink_missing_ok_def split: prod.splits if_splits)

lemma write_temp_file_notices:
  "write_temp_file sys d f w = (t, w') \<Longrightarrow> notices w' = notices w"
  by (auto simp: write_temp_file_def Let_def)

lemma prepare_wav_artifact_notices:
  assumes "prepare_wav_artifact sys br w = (r, w')"
  shows "notices w' = notices w"
proof (cases "path_or_stream br")
  case (Path p)
  obtain r2 w2 where e: "ensure_wav_audio sys p w = (r2, w2)"
    by (cases "ensure_wav_audio sys p w")
  from ensure_wav_audio_notices[OF e] assms Path e show ?thesis
    by (auto simp: prepare_wav_artifact_def Let_def)
next
  case (BytesIO d)
  obtain t w1 where wt: "write_temp_file sys d (filename br) w = (t, w1)"
    by (cases "write_temp_file sys d (filename br) w")
  obtain r2 w2 where e: "ensure_wav_audio sys t w1 = (r2, w2)"
    by (cases "ensure_wav_audio sys t w1")
  from write_temp_file_notices[OF wt] ensure_wav_audio_notices[OF e] assms BytesIO wt e
  show ?thesis
    by (auto simp: prepare_wav_artifact_def Let_def unlink_missing_ok_def split: if_splits)
qed

lemma speech_to_text_stage_notices:
  assumes "speech_to_text_stage sha256 sys self inp fname language w = (r, w')"
  shows "notices w' = notices w"
proof (cases "validate_input (files w) inp fname")
  case (Inl e)
  with assms show ?thesis by (simp add: speech_to_text_stage_def)
next
  case (Inr br)
  obtain r1 w1 where p: "prepare_wav_artifact sys br w = (r1, w1)"
    by (cases "prepare_wav_artifact sys br w")
  from prepare_wav_artifact_notices[OF p] assms Inr p show ?thesis
    by (auto simp: speech_to_text_stage_def Let_def split: sum.splits)
qed

lemma describe_video_frames_notices:
  "describe_video_frames sys self br w = (r, w') \<Longrightarrow> notices w' = notices w"
  by (auto simp: describe_video_frames_def Let_def write_temp_file_def unlink_missing_ok_def
      split: option.splits prod.splits path_or_stream.splits)


lemma describe_video_frames_unfolded:
  "describe_video_frames sys self br w' =
     (case vision_provider self of
        None \<Rightarrow> ([], w')
      | Some describe \<Rightarrow>
          (case path_or_stream br of
             Path p \<Rightarrow>
               (case extract_keyframes_with_timestamps p (files w' p \<noteq> None)
                       (run_ffmpeg_extract sys p SCENE_FILTER)
                       (run_ffmpeg_extract sys p UNIFORM_FILTER) 16 of
                  Inl e \<Rightarrow> []
                | Inr frames \<Rightarrow>
                    if frames = [] then []
                    else (case describe frames of Inl e \<Rightarrow> [] | Inr described \<Rightarrow> described),
                w')
           | BytesIO data \<Rightarrow>
               (case extract_keyframes_with_timestamps
                       (fst (write_temp_file sys data (filename br) w'))
                       (files (snd (write_temp_file sys data (filename br) w'))
                          (fst (write_temp_file sys data (filename br) w')) \<noteq> None)
                       (run_ffmpeg_extract sys
                          (fst (write_temp_file sys data (filename br) w')) SCENE_FILTER)
                       (run_ffmpeg_extract sys
                          (fst (write_temp_file sys data (filename br) w')) UNIFORM_FILTER) 16 of
                  Inl e \<Rightarrow> []
                | Inr frames \<Rightarrow>
                    if frames = [] then []
                    else (case describe frames of Inl e \<Rightarrow> [] | Inr described \<Rightarrow> described),
                unlink_missing_ok (fst (write_temp_file sys data (filename br) w'))
                  (snd (write_temp_file sys data (filename br) w')))))"
  by (simp add: describe_video_frames_def Let_def split_def
      split: option.splits path_or_stream.splits)

text \<open>
  C4. Once the speech-to-text stage has returned a conversation, the pipeline takes the
  visual path exactly when the file name ends in a video extension, the conversation is
  empty and the pipeline holds a vision provider: it logs the notice, runs
  \<open>describe_video_frames\<close> and builds the document from the items that returns. In every
  other case, in particular for a name that is not a video name, the document is built
  from the conversation as it is and the world is left as the speech-to-text stage left
  it. \<open>describe_video_frames\<close> extracts the keyframes of the video and returns the items
  the vision provider gives for them, and no item without a provider. A default vision
  client whose constructor raises leaves the pipeline without a vision provider.
\<close>

theorem visual_fallback_decision:
  assumes st: "speech_to_text_stage sha256 sys self inp fname language w
                 = (Inr (br, h, wav, conv), w1)"
  shows "transcribe_with_artifacts sha256 sys self inp fname language summary w
           = (if is_video_file (filename br) \<and> conv = [] \<and> vision_provider self \<noteq> None
              then (case build_docling_document (filename br) ''video/mp4'' h
                           (fst (describe_video_frames sys self br
                                   (w1\<lparr>notices := notices w1 @ [FALLBACK_NOTICE]\<rparr>)))
                           summary of
                      Inl e \<Rightarrow> Inl e
                    | Inr doc \<Rightarrow> Inr \<lparr>document = doc, audio_path = wav\<rparr>,
                    snd (describe_video_frames sys self br
                           (w1\<lparr>notices := notices w1 @ [FALLBACK_NOTICE]\<rparr>)))
              else (case build_docling_document (filename br)
                           (if is_video_file (filename br) then ''video/mp4'' else ''audio/wav'')
                           h conv summary of
                      Inl e \<Rightarrow> Inl e
                    | Inr doc \<Rightarrow> Inr \<lparr>document = doc, audio_path = wav\<rparr>,
                    w1))
         \<and> notices (snd (transcribe_with_artifacts sha256 sys self inp fname language summary w))
             = notices w @ (if is_video_file (filename br) \<and> conv = [] \<and> vision_provider self \<noteq> None
                            then [FALLBACK_NOTICE] else [])
         \<and> (\<forall>w'. describe_video_frames sys self br w' =
               (case vision_provider self of
                  None \<Rightarrow> ([], w')
                | Some describe \<Rightarrow>
                    (case path_or_stream br of
                       Path p \<Rightarrow>
                         (case extract_keyframes_with_timestamps p (files w' p \<noteq> None)
                                 (run_ffmpeg_extract sys p SCENE_FILTER)
                                 (run_ffmpeg_extract sys p UNIFORM_FILTER) 16 of
                            Inl e \<Rightarrow> []
                          | Inr frames \<Rightarrow>
                              if frames = [] then []
                              else (case describe frames of
                                      Inl e \<Rightarrow> [] | Inr described \<Rightarrow> described),
                          w')
                     | BytesIO data \<Rightarrow>
                         (case extract_keyframes_with_timestamps
                                 (fst (write_temp_file sys data (filename br) w'))
                                 (files (snd (write_temp_file sys data (filename br) w'))
                                    (fst (write_temp_file sys data (filename br) w')) \<noteq> None)
                                 (run_ffmpeg_extract sys
                                    (fst (write_temp_file sys data (filename br) w')) SCENE_FILTER)
                                 (run_ffmpeg_extract sys
                                    (fst (write_temp_file sys data (filename br) w')) UNIFORM_FILTER)
                                 16 of
                            Inl e \<Rightarrow> []
                          | Inr frames \<Rightarrow>
                              if frames = [] then []
                              else (case describe frames of
                                      Inl e \<Rightarrow> [] | Inr described \<Rightarrow> described),
                          unlink_missing_ok (fst (write_temp_file sys data (filename br) w'))
                            (snd (write_temp_file sys data (filename br) w'))))))
         \<and> init_default_vision_provider (Inl e :: error + ImageCaptionProvider) = None"
proof -
  let ?trigger = "is_video_file (filename br) \<and> conv = [] \<and> vision_provider self \<noteq> None"
  let ?w = "w1\<lparr>notices := notices w1 @ [FALLBACK_NOTICE]\<rparr>"
  have n1: "notices w1 = notices w"
    using speech_to_text_stage_notices[OF st] .
  obtain vis w2 where dv: "describe_video_frames sys self br ?w = (vis, w2)"
    by (cases "describe_video_frames sys self br ?w")
  have a: "transcribe_with_artifacts sha256 sys self inp fname language summary w
           = (if ?trigger
              then (case build_docling_document (filename br) ''video/mp4'' h
                           (fst (describe_video_frames sys self br ?w)) summary of
                      Inl e \<Rightarrow> Inl e
                    | Inr doc \<Rightarrow> Inr \<lparr>document = doc, audio_path = wav\<rparr>,
                    snd (describe_video_frames sys self br ?w))
              else (case build_docling_document (filename br)
                           (if is_video_file (filename br) then ''video/mp4'' else ''audio/wav'')
                           h conv summary of
                      Inl e \<Rightarrow> Inl e
                    | Inr doc \<Rightarrow> Inr \<lparr>document = doc, audio_path = wav\<rparr>,
                    w1))"
  proof (cases ?trigger)
    case True
    then show ?thesis
      by (auto simp: transcribe_with_artifacts_def st should_use_visual_fallback_def Let_def dv)
  next
    case False
    then show ?thesis
      by (auto simp: transcribe_with_artifacts_def st should_use_visual_fallback_def Let_def)
  qed
  have b: "notices (snd (transcribe_with_artifacts sha256 sys self inp fname language summary w))
             = notices w @ (if ?trigger then [FALLBACK_NOTICE] else [])"
  proof (cases ?trigger)
    case True
    from describe_video_frames_notices[OF dv] have "notices w2 = notices w1 @ [FALLBACK_NOTICE]"
      by simp
    with True n1 dv show ?thesis unfolding a by auto
  next
    case False
    with n1 show ?thesis unfolding a by auto
  qed
  have d: "init_default_vision_provider (Inl e :: error + ImageCaptionProvider) = None"
    by (simp add: init_default_vision_provider_def)
  from a b describe_video_frames_unfolded[of sys self br] d show ?thesis
    by (intro conjI allI) assumption+
qed

lemma transcribe_stage_error:
  "speech_to_text_stage sha256 sys self inp fname language w = (Inl e, w1) \<Longrightarrow>
   transcribe_with_artifacts sha256 sys self inp fname language summary w = (Inl e, w1)"
  by (simp add: transcribe_with_artifacts_def)


lemma example_video_names:
  "is_video_file ''talk.mp4''" "\<not> is_video_file ''talk.WAV''"
  "Path_name ''/data/talk.mp4'' = ''talk.mp4''" "Path_name ''/data/talk.WAV'' = ''talk.WAV''"
  by (simp_all add: is_video_file_def endswith_any_def VIDEO_EXTENSIONS_def lower.simps
      lower_char_def Path_name_def suffix_to_prefix)


lemma example_speech_stage:
  "\<exists>w1. speech_to_text_stage sha256 (example_os 0 []) (example_pipeline items vision)
           (InPath ''/data/talk.mp4'') None ''zh'' example_world
         = (Inr (\<lparr>path_or_stream = Path ''/data/talk.mp4'', filename = ''talk.mp4''\<rparr>,
                 sha256 ''abc'', Some ''/tmp/tmpab12.wav'', items), w1)
       \<and> files w1 ''/data/talk.mp4'' = Some ''abc'' \<and> notices w1 = []"
proof -
  have v: "validate_input (files example_world) (InPath ''/data/talk.mp4'') None
      = Inr \<lparr>path_or_stream = Path ''/data/talk.mp4'', filename = ''talk.mp4''\<rparr>"
    by (simp add: validate_input_def example_world_def example_files_def example_video_names)
  have h: "compute_binary_hash sha256 (files example_world)
      \<lparr>path_or_stream = Path ''/data/talk.mp4'', filename = ''talk.mp4''\<rparr> = sha256 ''abc''"
    by (simp add: compute_binary_hash_def read_chunks_all example_world_def example_files_def)
  have n: "lower (Path_suffix ''/data/talk.mp4'') \<noteq> ''.wav''"
    unfolding example_suffixes(3) by simp
  obtain r w1 where e0: "ensure_wav_audio (example_os 0 []) ''/data/talk.mp4'' example_world
      = (r, w1)"
    by (cases "ensure_wav_audio (example_os 0 []) ''/data/talk.mp4'' example_world")
  from e0 have r: "r = Inr ''/tmp/tmpab12.wav''"
    and f: "files w1 ''/data/talk.mp4'' = Some ''abc''"
    and nt: "notices w1 = []"
    by (auto simp: ensure_wav_audio_other[OF n] Let_def example_os_def example_world_def
        example_files_def)
  have p: "prepare_wav_artifact (example_os 0 [])
      \<lparr>path_or_stream = Path ''/data/talk.mp4'', filename = ''talk.mp4''\<rparr> example_world
      = (Inr (Some ''/tmp/tmpab12.wav''), w1)"
    using e0 r by (simp add: prepare_wav_artifact_path)
  have "speech_to_text_stage sha256 (example_os 0 []) (example_pipeline items vision)
           (InPath ''/data/talk.mp4'') None ''zh'' example_world
         = (Inr (\<lparr>path_or_stream = Path ''/data/talk.mp4'', filename = ''talk.mp4''\<rparr>,
                 sha256 ''abc'', Some ''/tmp/tmpab12.wav'', items), w1)"
    by (simp add: speech_to_text_stage_def v h p example_pipeline_def example_provider_def)
  with f nt show ?thesis by blast
qed

lemma example_speech_stage_wav:
  "speech_to_text_stage sha256 (example_os 0 []) (example_pipeline items vision)
           (InPath ''/data/talk.WAV'') None ''zh'' example_world
         = (Inr (\<lparr>path_or_stream = Path ''/data/talk.WAV'', filename = ''talk.WAV''\<rparr>,
                 sha256 ''RIFF'', Some ''/data/talk.WAV'', items), example_world)"
proof -
  have v: "validate_input (files example_world) (InPath ''/data/talk.WAV'') None
      = Inr \<lparr>path_or_stream = Path ''/data/talk.WAV'', filename = ''talk.WAV''\<rparr>"
    by (simp add: validate_input_def example_world_def example_files_def example_video_names)
  have h: "compute_binary_hash sha256 (files example_world)
      \<lparr>path_or_stream = Path ''/data/talk.WAV'', filename = ''talk.WAV''\<rparr> = sha256 ''RIFF''"
    by (simp add: compute_binary_hash_def read_chunks_all example_world_def example_files_def)
  have p: "prepare_wav_artifact (example_os 0 [])
      \<lparr>path_or_stream = Path ''/data/talk.WAV'', filename = ''talk.WAV''\<rparr> example_world
      = (Inr (Some ''/data/talk.WAV''), example_world)"
    by (simp add: prepare_wav_artifact_path ensure_wav_audio_wav[OF example_suffixes(2)])
  show ?thesis
    by (simp add: speech_to_text_stage_def v h p example_pipeline_def example_provider_def)
qed

lemma example_keyframe_line:
  "to_string example_keyframe
     = ''[[KEYFRAME_START]] [time: 00:00:03.500-00:00:03.501] frame=2;time=3.500s''
       @ [CHR 0x0A] @ ''a cat'' @ [CHR 0x0A] @ ''[[KEYFRAME_END]]''"
  by code_simp

lemma example_hello_line:
  "to_string (example_item ''hello'') = ''[time: 00:00:00.000-00:00:01.200] hello''"
  by (simp add: example_item_def to_string_def time_tag_of_def opt_chunk_def KEYFRAME_PREFIX_def
      format_ms_def py_int_def format_int0_def zfill_def str_nat.simps digit_char_def
      numeral_2_eq_2)

lemma example_documents:
  "build_docling_document f m h [example_keyframe] None
     = Inr \<lparr>doc_name = f,
            doc_origin = \<lparr>origin_filename = f, origin_mimetype = m, origin_binary_hash = h\<rparr>,
            doc_texts = [to_string example_keyframe]\<rparr>"
  "build_docling_document f m h [example_item ''hello''] None
     = Inr \<lparr>doc_name = f,
            doc_origin = \<lparr>origin_filename = f, origin_mimetype = m, origin_binary_hash = h\<rparr>,
            doc_texts = [to_string (example_item ''hello'')]\<rparr>"
  "build_docling_document f m h [] None
     = Inr \<lparr>doc_name = f,
            doc_origin = \<lparr>origin_filename = f, origin_mimetype = m, origin_binary_hash = h\<rparr>,
            doc_texts = []\<rparr>"
  by (simp_all add: build_docling_document_def)

lemma example_extraction:
  "extract_keyframes_with_timestamps p True
     (run_ffmpeg_extract (example_os 0 []) p SCENE_FILTER)
     (run_ffmpeg_extract (example_os 0 []) p UNIFORM_FILTER) 16
   = Inr [(''/tmp/keyframes_1/frame_0001.jpg'', 0)]"
  by (simp add: extract_keyframes_with_timestamps_def example_os_def downsample_def)

theorem visual_fallback_decision_witness:
  "fst (transcribe_with_artifacts (\<lambda>b. b) (example_os 0 [])
          (example_pipeline [] (Some example_vision))
          (InPath ''/data/talk.mp4'') None ''zh'' None example_world)
     = Inr \<lparr>document = \<lparr>doc_name = ''talk.mp4'',
                            doc_origin = \<lparr>origin_filename = ''talk.mp4'',
                                           origin_mimetype = ''video/mp4'',
                                           origin_binary_hash = ''abc''\<rparr>,
                            doc_texts = [''[[KEYFRAME_START]] [time: 00:00:03.500-00:00:03.501] frame=2;time=3.500s''
                                         @ [CHR 0x0A] @ ''a cat'' @ [CHR 0x0A] @ ''[[KEYFRAME_END]]'']\<rparr>,
            audio_path = Some ''/tmp/tmpab12.wav''\<rparr>
   \<and> notices (snd (transcribe_with_artifacts (\<lambda>b. b) (example_os 0 [])
          (example_pipeline [] (Some example_vision))
          (InPath ''/data/talk.mp4'') None ''zh'' None example_world)) = [FALLBACK_NOTICE]
   \<and> fst (transcribe_with_artifacts (\<lambda>b. b) (example_os 0 [])
          (example_pipeline [example_item ''hello''] (Some example_vision))
          (InPath ''/data/talk.mp4'') None ''zh'' None example_world)
     = Inr \<lparr>document = \<lparr>doc_name = ''talk.mp4'',
                            doc_origin = \<lparr>origin_filename = ''talk.mp4'',
                                           origin_mimetype = ''video/mp4'',
                                           origin_binary_hash = ''abc''\<rparr>,
                            doc_texts = [''[time: 00:00:00.000-00:00:01.200] hello'']\<rparr>,
            audio_path = Some ''/tmp/tmpab12.wav''\<rparr>
   \<and> notices (snd (transcribe_with_artifacts (\<lambda>b. b) (example_os 0 [])
          (example_pipeline [example_item ''hello''] (Some example_vision))
          (InPath ''/data/talk.mp4'') None ''zh'' None example_world)) = []
   \<and> fst (transcribe_with_artifacts (\<lambda>b. b) (example_os 0 [])
          (example_pipeline [] None)
          (InPath ''/data/talk.mp4'') None ''zh'' None example_world)
     = Inr \<lparr>document = \<lparr>doc_name = ''talk.mp4'',
                            doc_origin = \<lparr>origin_filename = ''talk.mp4'',
                                           origin_mimetype = ''video/mp4'',
                                           origin_binary_hash = ''abc''\<rparr>,
                            doc_texts = []\<rparr>,
            audio_path = Some ''/tmp/tmpab12.wav''\<rparr>
   \<and> transcribe_with_artifacts (\<lambda>b. b) (example_os 0 [])
          (example_pipeline [] (Some example_vision))
          (InPath ''/data/talk.WAV'') None ''zh'' None example_world
     = (Inr \<lparr>document = \<lparr>doc_name = ''talk.WAV'',
                             doc_origin = \<lparr>origin_filename = ''talk.WAV'',
                                            origin_mimetype = ''audio/wav'',
                                            origin_binary_hash = ''RIFF''\<rparr>,
                             doc_texts = []\<rparr>,
             audio_path = Some ''/data/talk.WAV''\<rparr>, example_world)"
proof -
  let ?br = "\<lparr>path_or_stream = Path ''/data/talk.mp4'', filename = ''talk.mp4''\<rparr>"
  have vp: "vision_provider (example_pipeline items v) = v" for items v
    by (simp add: example_pipeline_def)
  obtain w1 where s1: "speech_to_text_stage (\<lambda>b. b) (example_os 0 [])
        (example_pipeline [] (Some example_vision))
        (InPath ''/data/talk.mp4'') None ''zh'' example_world
      = (Inr (?br, ''abc'', Some ''/tmp/tmpab12.wav'', []), w1)"
    and f1: "files w1 ''/data/talk.mp4'' = Some ''abc''" and n1: "notices w1 = []"
    using example_speech_stage[of "\<lambda>b. b" "[]" "Some example_vision"] by blast
  obtain w2 where s2: "speech_to_text_stage (\<lambda>b. b) (example_os 0 [])
        (example_pipeline [example_item ''hello''] (Some example_vision))
        (InPath ''/data/talk.mp4'') None ''zh'' example_world
      = (Inr (?br, ''abc'', Some ''/tmp/tmpab12.wav'', [example_item ''hello'']), w2)"
    and n2: "notices w2 = []"
    using example_speech_stage[of "\<lambda>b. b" "[example_item ''hello'']" "Some example_vision"]
    by blast
  obtain w3 where s3: "speech_to_text_stage (\<lambda>b. b) (example_os 0 [])
        (example_pipeline [] None)
        (InPath ''/data/talk.mp4'') None ''zh'' example_world
      = (Inr (?br, ''abc'', Some ''/tmp/tmpab12.wav'', []), w3)"
    using example_speech_stage[of "\<lambda>b. b" "[]" None] by blast
  note s4 = example_speech_stage_wav[of "\<lambda>b. b" "[]" "Some example_vision"]
  note t1 = visual_fallback_decision [OF s1, of None]
  note t2 = visual_fallback_decision [OF s2, of None]
  note t3 = visual_fallback_decision [OF s3, of None]
  note t4 = visual_fallback_decision [OF s4, of None]
  have nw: "notices example_world = []" by (simp add: example_world_def)
  from t1 [THEN conjunct2, THEN conjunct2, THEN conjunct1]
  have dv: "fst (describe_video_frames (example_os 0 []) (example_pipeline [] (Some example_vision))
        ?br (w1\<lparr>notices := notices w1 @ [FALLBACK_NOTICE]\<rparr>)) = [example_keyframe]"
    by (simp add: vp f1 example_extraction example_vision_def)
  from t1 [THEN conjunct1]
  have a: "fst (transcribe_with_artifacts (\<lambda>b. b) (example_os 0 [])
          (example_pipeline [] (Some example_vision))
          (InPath ''/data/talk.mp4'') None ''zh'' None example_world)
     = Inr \<lparr>document = \<lparr>doc_name = ''talk.mp4'',
                            doc_origin = \<lparr>origin_filename = ''talk.mp4'',
                                           origin_mimetype = ''video/mp4'',
                                           origin_binary_hash = ''abc''\<rparr>,
                            doc_texts = [''[[KEYFRAME_START]] [time: 00:00:03.500-00:00:03.501] frame=2;time=3.500s''
                                         @ [CHR 0x0A] @ ''a cat'' @ [CHR 0x0A] @ ''[[KEYFRAME_END]]'']\<rparr>,
            audio_path = Some ''/tmp/tmpab12.wav''\<rparr>"
    by (simp add: vp example_video_names dv example_documents example_keyframe_line)
  from t1 [THEN conjunct2, THEN conjunct1]
  have b: "notices (snd (transcribe_with_artifacts (\<lambda>b. b) (example_os 0 [])
          (example_pipeline [] (Some example_vision))
          (InPath ''/data/talk.mp4'') None ''zh'' None example_world)) = [FALLBACK_NOTICE]"
    by (simp add: vp example_video_names nw)
  from t2 [THEN conjunct1]
  have c: "fst (transcribe_with_artifacts (\<lambda>b. b) (example_os 0 [])
          (example_pipeline [example_item ''hello''] (Some example_vision))
          (InPath ''/data/talk.mp4'') None ''zh'' None example_world)
     = Inr \<lparr>document = \<lparr>doc_name = ''talk.mp4'',
                            doc_origin = \<lparr>origin_filename = ''talk.mp4'',
                                           origin_mimetype = ''video/mp4'',
                                           origin_binary_hash = ''abc''\<rparr>,
                            doc_texts = [''[time: 00:00:00.000-00:00:01.200] hello'']\<rparr>,
            audio_path = Some ''/tmp/tmpab12.wav''\<rparr>"
    by (simp add: vp example_video_names example_documents example_hello_line)
  from t2 [THEN conjunct2, THEN conjunct1]
  have d: "notices (snd (transcribe_with_artifacts (\<lambda>b. b) (example_os 0 [])
          (example_pipeline [example_item ''hello''] (Some example_vision))
          (InPath ''/data/talk.mp4'') None ''zh'' None example_world)) = []"
    by (simp add: vp example_video_names nw)
  from t3 [THEN conjunct1]
  have e: "fst (transcribe_with_artifacts (\<lambda>b. b) (example_os 0 [])
          (example_pipeline [] None)
          (InPath ''/data/talk.mp4'') None ''zh'' None example_world)
     = Inr \<lparr>document = \<lparr>doc_name = ''talk.mp4'',
                            doc_origin = \<lparr>origin_filename = ''talk.mp4'',
                                           origin_mimetype = ''video/mp4'',
                                           origin_binary_hash = ''abc''\<rparr>,
                            doc_texts = []\<rparr>,
            audio_path = Some ''/tmp/tmpab12.wav''\<rparr>"
    by (simp add: vp example_video_names example_documents)
  from t4 [THEN conjunct1]
  have f: "transcribe_with_artifacts (\<lambda>b. b) (example_os 0 [])
          (example_pipeline [] (Some example_vision))
          (InPath ''/data/talk.WAV'') None ''zh'' None example_world
     = (Inr \<lparr>document = \<lparr>doc_name = ''talk.WAV'',
                             doc_origin = \<lparr>origin_filename = ''talk.WAV'',
                                            origin_mimetype = ''audio/wav'',
                                            origin_binary_hash = ''RIFF''\<rparr>,
                             doc_texts = []\<rparr>,
             audio_path = Some ''/data/talk.WAV''\<rparr>, example_world)"
    by (simp add: vp example_video_names example_documents)
  from a b c d e f show ?thesis by blast
qed

end
